theory Spec2Isabelle
  imports Main
begin

section \<open>Query documents\<close>

text \<open>
  The plugin consumes an already parsed GraphQL document. Only the parts of the AST that
  the helpers of \<^verbatim>\<open>schema-helpers.ts\<close> read are kept: the definitions of the document, the
  operation type and the optional name of an operation, the type condition of a fragment,
  and the selections with their field names. A field without a selection set is a
  \<open>Field\<close> with no selections: no field is visited below it either way. Arguments,
  directives and variable definitions hold no \<open>Field\<close> node and do not change the output
  type that \<open>TypeInfo\<close> tracks, so they are left out.
\<close>

type_synonym name = string

datatype operation_type = query | mutation | subscription

datatype selection =
    Field name "selection list"
  | FragmentSpread name
  | InlineFragment "name option" "selection list"

datatype definition_node =
    OperationDefinition operation_type "name option" "selection list"
  | FragmentDefinition name name "selection list"
  | TypeSystemDefinition

type_synonym document_node = "definition_node list"

section \<open>Schemas and type information\<close>

text \<open>
  A schema is the type map that graphql-js builds (the introspection types \<open>__Schema\<close>,
  \<open>__Type\<close>, ... included) and its three root types. Types refer to each other by name,
  wrapped in list and non-null modifiers.
\<close>

datatype gql_type = NamedType name | ListType gql_type | NonNullType gql_type

datatype type_kind = SCALAR | OBJECT | INTERFACE | UNION | ENUM | INPUT_OBJECT

record type_def =
  typeKind :: type_kind
  getFields :: "(name \<times> gql_type) list"

record gql_schema =
  typeMap :: "(name \<times> type_def) list"
  queryType :: "name option"
  mutationType :: "name option"
  subscriptionType :: "name option"

fun getNamedType :: "gql_type \<Rightarrow> name" where
  "getNamedType (NamedType n) = n"
| "getNamedType (ListType t) = getNamedType t"
| "getNamedType (NonNullType t) = getNamedType t"

definition schema_getType :: "gql_schema \<Rightarrow> name \<Rightarrow> type_def option" where
  "schema_getType sch n = map_of (typeMap sch) n"

definition getRootType :: "gql_schema \<Rightarrow> operation_type \<Rightarrow> name option" where
  "getRootType sch op =
     (case op of query \<Rightarrow> queryType sch
               | mutation \<Rightarrow> mutationType sch
               | subscription \<Rightarrow> subscriptionType sch)"

definition kindOf :: "gql_schema \<Rightarrow> name \<Rightarrow> type_kind option" where
  "kindOf sch n = map_option typeKind (schema_getType sch n)"

definition isObjectType :: "gql_schema \<Rightarrow> name \<Rightarrow> bool" where
  "isObjectType sch n = (kindOf sch n = Some OBJECT)"

definition isCompositeType :: "gql_schema \<Rightarrow> name \<Rightarrow> bool" where
  "isCompositeType sch n = (kindOf sch n \<in> {Some OBJECT, Some INTERFACE, Some UNION})"

definition isOutputType :: "gql_schema \<Rightarrow> gql_type \<Rightarrow> bool" where
  "isOutputType sch t =
     (kindOf sch (getNamedType t) \<in> {Some SCALAR, Some OBJECT, Some INTERFACE, Some UNION, Some ENUM})"

text \<open>The eight introspection types of graphql-js; \<open>isIntrospectionType\<close> compares names.\<close>

definition introspectionTypes :: "name list" where
  "introspectionTypes =
     [''__Schema'', ''__Directive'', ''__DirectiveLocation'', ''__Type'', ''__Field'',
      ''__InputValue'', ''__EnumValue'', ''__TypeKind'']"

definition isIntrospectionType :: "name \<Rightarrow> bool" where
  "isIntrospectionType n = (n \<in> set introspectionTypes)"

text \<open>
  \<open>getFieldDef\<close> of \<open>TypeInfo\<close>: the meta fields \<open>__schema\<close> and \<open>__type\<close> exist on the
  query root, \<open>__typename\<close> on every composite type, and every other field is looked up in
  the fields of an object or interface type.
\<close>

definition getFieldDef :: "gql_schema \<Rightarrow> name \<Rightarrow> name \<Rightarrow> gql_type option" where
  "getFieldDef sch parentType fieldName =
     (if fieldName = ''__schema'' \<and> queryType sch = Some parentType
        then Some (NonNullType (NamedType ''__Schema''))
      else if fieldName = ''__type'' \<and> queryType sch = Some parentType
        then Some (NamedType ''__Type'')
      else if fieldName = ''__typename'' \<and> isCompositeType sch parentType
        then Some (NonNullType (NamedType ''String''))
      else if kindOf sch parentType \<in> {Some OBJECT, Some INTERFACE}
        then (case schema_getType sch parentType of
                None \<Rightarrow> None
              | Some d \<Rightarrow> map_of (getFields d) fieldName)
      else None)"

text \<open>
  What \<open>TypeInfo\<close> answers while a \<open>Field\<close> node is entered: \<open>getType()\<close>, the top of
  its type stack, and \<open>getParentType()\<close>, the top of its parent type stack. \<open>visit\<close> enters
  and leaves nodes in a well-bracketed way, so both stacks are passed down the recursion.
\<close>

record type_info =
  getType :: "gql_type option"
  getParentType :: "name option"

definition outputOnly :: "gql_schema \<Rightarrow> gql_type option \<Rightarrow> gql_type option" where
  "outputOnly sch t = (case t of None \<Rightarrow> None | Some ty \<Rightarrow> if isOutputType sch ty then Some ty else None)"

text \<open>Entering a \<open>SelectionSet\<close> pushes the named type on top of the type stack, if composite.\<close>

definition enterSelectionSet :: "gql_schema \<Rightarrow> gql_type option \<Rightarrow> name option" where
  "enterSelectionSet sch t =
     (case t of None \<Rightarrow> None
      | Some ty \<Rightarrow> if isCompositeType sch (getNamedType ty) then Some (getNamedType ty) else None)"

definition enterField :: "gql_schema \<Rightarrow> name option \<Rightarrow> name \<Rightarrow> gql_type option" where
  "enterField sch parent fieldName =
     outputOnly sch (case parent of None \<Rightarrow> None | Some p \<Rightarrow> getFieldDef sch p fieldName)"

definition typeFromAST :: "gql_schema \<Rightarrow> name \<Rightarrow> gql_type option" where
  "typeFromAST sch n = (if schema_getType sch n = None then None else Some (NamedType n))"

definition enterFragment :: "gql_schema \<Rightarrow> gql_type option \<Rightarrow> name option \<Rightarrow> gql_type option" where
  "enterFragment sch t typeCondition =
     outputOnly sch (case typeCondition of
                       Some c \<Rightarrow> typeFromAST sch c
                     | None \<Rightarrow> map_option (\<lambda>ty. NamedType (getNamedType ty)) t)"

definition enterOperation :: "gql_schema \<Rightarrow> operation_type \<Rightarrow> gql_type option" where
  "enterOperation sch op =
     (case getRootType sch op of
        None \<Rightarrow> None
      | Some r \<Rightarrow> if isObjectType sch r then Some (NamedType r) else None)"

section \<open>The visitor\<close>

text \<open>
  \<open>visit(document, visitWithTypeInfo(typeInfo, {Field() {...}}))\<close>: a depth-first walk
  that calls the \<open>Field\<close> callback on entering each field, after \<open>TypeInfo\<close> has entered
  it. The callbacks of this plugin return \<open>undefined\<close> (go on) or \<open>BREAK\<close> (stop the
  whole walk); what they write is the state \<open>'st\<close> (their closure variable).
\<close>

datatype visit_action = Undefined | BREAK

type_synonym 'st field_visitor = "type_info \<Rightarrow> name \<Rightarrow> 'st \<Rightarrow> visit_action \<times> 'st"

fun visit_selection ::
    "gql_schema \<Rightarrow> 'st field_visitor \<Rightarrow> gql_type option \<Rightarrow> name option \<Rightarrow> selection \<Rightarrow> 'st \<Rightarrow> visit_action \<times> 'st"
  and visit_selections ::
    "gql_schema \<Rightarrow> 'st field_visitor \<Rightarrow> gql_type option \<Rightarrow> name option \<Rightarrow> selection list \<Rightarrow> 'st \<Rightarrow> visit_action \<times> 'st"
where
  "visit_selection sch v t parent (Field f sels) st =
     (let ft = enterField sch parent f in
      case v \<lparr>getType = ft, getParentType = parent\<rparr> f st of
        (BREAK, st') \<Rightarrow> (BREAK, st')
      | (Undefined, st') \<Rightarrow> visit_selections sch v ft (enterSelectionSet sch ft) sels st')"
| "visit_selection sch v t parent (FragmentSpread n) st = (Undefined, st)"
| "visit_selection sch v t parent (InlineFragment c sels) st =
     (let ft = enterFragment sch t c in
      visit_selections sch v ft (enterSelectionSet sch ft) sels st)"
| "visit_selections sch v t parent [] st = (Undefined, st)"
| "visit_selections sch v t parent (s # ss) st =
     (case visit_selection sch v t parent s st of
        (BREAK, st') \<Rightarrow> (BREAK, st')
      | (Undefined, st') \<Rightarrow> visit_selections sch v t parent ss st')"

fun visit_definition :: "gql_schema \<Rightarrow> 'st field_visitor \<Rightarrow> definition_node \<Rightarrow> 'st \<Rightarrow> visit_action \<times> 'st" where
  "visit_definition sch v (OperationDefinition op n sels) st =
     (let t = enterOperation sch op in
      visit_selections sch v t (enterSelectionSet sch t) sels st)"
| "visit_definition sch v (FragmentDefinition n c sels) st =
     (let t = enterFragment sch None (Some c) in
      visit_selections sch v t (enterSelectionSet sch t) sels st)"
| "visit_definition sch v TypeSystemDefinition st = (Undefined, st)"

fun visit_definitions :: "gql_schema \<Rightarrow> 'st field_visitor \<Rightarrow> definition_node list \<Rightarrow> 'st \<Rightarrow> visit_action \<times> 'st" where
  "visit_definitions sch v [] st = (Undefined, st)"
| "visit_definitions sch v (d # ds) st =
     (case visit_definition sch v d st of
        (BREAK, st') \<Rightarrow> (BREAK, st')
      | (Undefined, st') \<Rightarrow> visit_definitions sch v ds st')"

definition visit :: "gql_schema \<Rightarrow> 'st field_visitor \<Rightarrow> document_node \<Rightarrow> 'st \<Rightarrow> 'st" where
  "visit sch v doc st = snd (visit_definitions sch v doc st)"


text \<open>
  The fields a complete walk enters, in depth-first order, each with the type information
  of that moment. This is the reference the short-circuiting walks are compared with.
\<close>

fun fields_of_selection ::
    "gql_schema \<Rightarrow> gql_type option \<Rightarrow> name option \<Rightarrow> selection \<Rightarrow> (type_info \<times> name) list"
  and fields_of_selections ::
    "gql_schema \<Rightarrow> gql_type option \<Rightarrow> name option \<Rightarrow> selection list \<Rightarrow> (type_info \<times> name) list"
where
  "fields_of_selection sch t parent (Field f sels) =
     (let ft = enterField sch parent f in
      (\<lparr>getType = ft, getParentType = parent\<rparr>, f)
        # fields_of_selections sch ft (enterSelectionSet sch ft) sels)"
| "fields_of_selection sch t parent (FragmentSpread n) = []"
| "fields_of_selection sch t parent (InlineFragment c sels) =
     (let ft = enterFragment sch t c in
      fields_of_selections sch ft (enterSelectionSet sch ft) sels)"
| "fields_of_selections sch t parent [] = []"
| "fields_of_selections sch t parent (s # ss) =
     fields_of_selection sch t parent s @ fields_of_selections sch t parent ss"

fun fields_of_definition :: "gql_schema \<Rightarrow> definition_node \<Rightarrow> (type_info \<times> name) list" where
  "fields_of_definition sch (OperationDefinition op n sels) =
     (let t = enterOperation sch op in
      fields_of_selections sch t (enterSelectionSet sch t) sels)"
| "fields_of_definition sch (FragmentDefinition n c sels) =
     (let t = enterFragment sch None (Some c) in
      fields_of_selections sch t (enterSelectionSet sch t) sels)"
| "fields_of_definition sch TypeSystemDefinition = []"

definition visited_fields :: "gql_schema \<Rightarrow> document_node \<Rightarrow> (type_info \<times> name) list" where
  "visited_fields sch doc = concat (map (fields_of_definition sch) doc)"

text \<open>Calling a callback on a list of fields in order, until it answers \<open>BREAK\<close>.\<close>

fun run_visitor :: "'st field_visitor \<Rightarrow> (type_info \<times> name) list \<Rightarrow> 'st \<Rightarrow> visit_action \<times> 'st" where
  "run_visitor v [] st = (Undefined, st)"
| "run_visitor v (e # es) st =
     (case v (fst e) (snd e) st of
        (BREAK, st') \<Rightarrow> (BREAK, st')
      | (Undefined, st') \<Rightarrow> run_visitor v es st')"

text \<open>
  A callback that also records every field it is called on: the record of a walk is the
  list of its callback invocations.
\<close>

definition traced :: "'st field_visitor \<Rightarrow> ((type_info \<times> name) list \<times> 'st) field_visitor" where
  "traced v ti f lst = (case v ti f (snd lst) of (r, st') \<Rightarrow> (r, (fst lst @ [(ti, f)], st')))"

section \<open>Values, execution arguments and options\<close>

text \<open>
  JavaScript values as far as the helpers see them. Floating-point arithmetic is not
  modelled: a number is represented by the text that \<open>Number::toString\<close> prints for it,
  which tells numbers apart, \<open>0\<close> and \<open>-0\<close> excepted, which JavaScript holds equal (\<open>5\<close> is \<open>JSNumber ''5''\<close>, \<open>1.5\<close> is \<open>JSNumber ''1.5''\<close>,
  \<open>10^21\<close> is \<open>JSNumber ''1e+21''\<close>, and \<open>NaN\<close> is \<open>JSNumber ''NaN''\<close>). \<open>toString\<close> is the
  conversion a template literal applies: a number prints as that text, a string as
  itself, an array as its elements joined with commas, \<open>null\<close> and \<open>undefined\<close> elements
  printing as nothing, and a plain object as \<open>[object Object]\<close>. Values of other kinds
  (functions, symbols, big integers) do not occur in an execution result.
\<close>

datatype js_value =
    JSUndefined
  | JSNull
  | JSBoolean bool
  | JSNumber string
  | JSString string
  | JSArray "js_value list"
  | JSObject "(string \<times> js_value) list"

fun join_comma :: "string list \<Rightarrow> string" where
  "join_comma [] = []"
| "join_comma [s] = s"
| "join_comma (s # t # ss) = s @ '','' @ join_comma (t # ss)"

fun toString :: "js_value \<Rightarrow> string" where
  "toString JSUndefined = ''undefined''"
| "toString JSNull = ''null''"
| "toString (JSBoolean b) = (if b then ''true'' else ''false'')"
| "toString (JSNumber printed) = printed"
| "toString (JSString s) = s"
| "toString (JSArray xs) =
     join_comma (map (\<lambda>x. if x = JSUndefined \<or> x = JSNull then [] else toString x) xs)"
| "toString (JSObject kvs) = ''[object Object]''"

record execution_args =
  schema :: gql_schema
  document :: document_node
  operationName :: "string option"

record on_execute_payload =
  args :: execution_args

record execution_result =
  data :: js_value
  errors :: "string list option"

record denylist_t =
  types :: "string list option"
  schemaCoordinates :: "string list option"

text \<open>
  The options the helpers read. An optional boolean flag is only ever tested for
  truthiness, so an absent flag is \<open>False\<close>. The logger is the list of the messages
  passed to \<open>logger.warn\<close>, in order.
\<close>

record options =
  params :: on_execute_payload
  result :: "execution_result option"
  eventName :: string
  sendOperations :: "operation_type list option"
  sendAnonymousOperations :: bool
  sendIntrospection :: bool
  sendErrors :: bool
  denylist :: "denylist_t option"

type_synonym log = "string list"

text \<open>
  What the helpers can end with instead of a value: the \<open>TypeError\<close> of JavaScript, the
  error of \<open>visitResult\<close> when no operation resolves, and a failure of the walk of the
  result data.
\<close>

datatype error = TypeError | CannotInferOperation | ExternalError


section \<open>Operation kind and name\<close>

text \<open>
  \<open>getOperationAST\<close> of graphql-js: with no operation name (\<open>null\<close> or \<open>undefined\<close>) the
  only operation of the document, and nothing when there are two; with a name, the first
  operation that declares it.
\<close>

fun getOperationAST_from ::
    "definition_node option \<Rightarrow> definition_node list \<Rightarrow> string option \<Rightarrow> definition_node option" where
  "getOperationAST_from operation [] opName = operation"
| "getOperationAST_from operation (OperationDefinition op n sels # ds) opName =
     (case opName of
        None \<Rightarrow>
          (if operation \<noteq> None then None
           else getOperationAST_from (Some (OperationDefinition op n sels)) ds opName)
      | Some nm \<Rightarrow>
          (if n = Some nm then Some (OperationDefinition op n sels)
           else getOperationAST_from operation ds opName))"
| "getOperationAST_from operation (FragmentDefinition n c sels # ds) opName =
     getOperationAST_from operation ds opName"
| "getOperationAST_from operation (TypeSystemDefinition # ds) opName =
     getOperationAST_from operation ds opName"

definition getOperationAST :: "document_node \<Rightarrow> string option \<Rightarrow> definition_node option" where
  "getOperationAST doc opName = getOperationAST_from None doc opName"

datatype operation_or_unknown = Operation operation_type | unknown

text \<open>\<open>operationAST?.operation ?? 'unknown'\<close>\<close>

definition getOperation :: "on_execute_payload \<Rightarrow> operation_or_unknown" where
  "getOperation p =
     (case getOperationAST (document (args p)) (operationName (args p)) of
        Some (OperationDefinition op n sels) \<Rightarrow> Operation op
      | _ \<Rightarrow> unknown)"

fun isOperationDefinition :: "definition_node \<Rightarrow> bool" where
  "isOperationDefinition (OperationDefinition op n sels) = True"
| "isOperationDefinition _ = False"

text \<open>A string operand of \<open>||\<close>: absent and empty strings are falsy.\<close>

definition truthy_string :: "string option \<Rightarrow> string option" where
  "truthy_string x = (case x of None \<Rightarrow> None | Some s \<Rightarrow> if s = [] then None else Some s)"

text \<open>
  \<open>getOperationName(options)\<close> reads \<open>options.params\<close> only, so the model takes the
  \<open>params\<close>. It returns \<open>args.operationName || rootOperation.name?.value || undefined\<close>,
  where \<open>rootOperation\<close> is what \<open>definitions.find\<close> returns: the first operation
  definition, or \<open>undefined\<close>. The second operand is only evaluated when the first is
  falsy; reading \<open>.name\<close> of \<open>undefined\<close> throws a \<open>TypeError\<close>.
\<close>

definition getOperationName :: "on_execute_payload \<Rightarrow> error + string option" where
  "getOperationName p =
     (let a = args p;
          rootOperation = find isOperationDefinition (document a)
      in case truthy_string (operationName a) of
           Some nm \<Rightarrow> Inr (Some nm)
         | None \<Rightarrow>
             (case rootOperation of
                Some (OperationDefinition op n sels) \<Rightarrow> Inr (truthy_string n)
              | _ \<Rightarrow> Inl TypeError))"

definition isAnonymousOperation :: "on_execute_payload \<Rightarrow> error + bool" where
  "isAnonymousOperation p =
     (case getOperationName p of Inl e \<Rightarrow> Inl e | Inr nm \<Rightarrow> Inr (nm = None))"

section \<open>The allow-list of operation kinds\<close>

definition operation_string :: "operation_type \<Rightarrow> string" where
  "operation_string op =
     (case op of query \<Rightarrow> ''query'' | mutation \<Rightarrow> ''mutation'' | subscription \<Rightarrow> ''subscription'')"

definition name_string :: "string option \<Rightarrow> string" where
  "name_string nm = (case nm of None \<Rightarrow> ''undefined'' | Some s \<Rightarrow> s)"

text \<open>
  The guard of the first warning is \<open>!options.sendOperations === undefined\<close>: the negation
  is applied first and yields a boolean, which is then compared with \<open>undefined\<close>. An array
  is truthy, an absent one is not.
\<close>

definition js_not :: "bool \<Rightarrow> js_value" where
  "js_not truthy = JSBoolean (\<not> truthy)"

definition strict_equals_undefined :: "js_value \<Rightarrow> bool" where
  "strict_equals_undefined v = (v = JSUndefined)"

definition sendOperation :: "options \<Rightarrow> (error + bool) \<times> log" where
  "sendOperation opts =
     (let log0 = (if strict_equals_undefined (js_not (sendOperations opts \<noteq> None))
                  then [''No operations are allowed.''] else []);
          ops = (case sendOperations opts of None \<Rightarrow> [] | Some xs \<Rightarrow> xs)
      in case getOperation (params opts) of
           unknown \<Rightarrow> (Inr False, log0 @ [''Unknown operation''])
         | Operation op \<Rightarrow>
             (let allow = (op \<in> set ops) in
              if \<not> allow then
                (case getOperationName (params opts) of
                   Inl e \<Rightarrow> (Inl e, log0)
                 | Inr nm \<Rightarrow>
                     (Inr allow,
                      log0 @ [''Operation '' @ operation_string op @ '' named '' @ name_string nm
                              @ '' is not allowed'']))
              else (Inr allow, log0)))"

section \<open>The document walks\<close>

definition isIntrospectionQuery_Field :: "bool field_visitor" where
  "isIntrospectionQuery_Field ti f isIntrospection =
     (case getType ti of
        None \<Rightarrow> (Undefined, isIntrospection)
      | Some t \<Rightarrow>
          if isIntrospectionType (getNamedType t) then (BREAK, True)
          else (Undefined, isIntrospection))"

definition isIntrospectionQuery :: "on_execute_payload \<Rightarrow> bool" where
  "isIntrospectionQuery p =
     visit (schema (args p)) isIntrospectionQuery_Field (document (args p)) False"

definition denyType_Field :: "string list \<Rightarrow> bool field_visitor" where
  "denyType_Field denied ti f hasType =
     (case getType ti of
        None \<Rightarrow> (Undefined, hasType)
      | Some t \<Rightarrow>
          if getNamedType t \<in> set denied then (BREAK, True)
          else (Undefined, hasType))"

definition typeDenyList :: "options \<Rightarrow> string list" where
  "typeDenyList opts =
     (case denylist opts of
        None \<Rightarrow> []
      | Some d \<Rightarrow> (case types d of None \<Rightarrow> [] | Some ts \<Rightarrow> ts))"

definition denyType :: "options \<Rightarrow> bool" where
  "denyType opts =
     visit (schema (args (params opts))) (denyType_Field (typeDenyList opts))
       (document (args (params opts))) False"

definition schemaCoordinate :: "name \<Rightarrow> name \<Rightarrow> string" where
  "schemaCoordinate parentTypeName fieldName = parentTypeName @ ''.'' @ fieldName"

definition denySchemaCoordinate_Field :: "string list \<Rightarrow> bool field_visitor" where
  "denySchemaCoordinate_Field denied ti f hasSchemaCoordinate =
     (case getParentType ti of
        None \<Rightarrow> (Undefined, hasSchemaCoordinate)
      | Some parentType \<Rightarrow>
          if schemaCoordinate parentType f \<in> set denied then (BREAK, True)
          else (Undefined, hasSchemaCoordinate))"

definition schemaCoordinateDenyList :: "options \<Rightarrow> string list" where
  "schemaCoordinateDenyList opts =
     (case denylist opts of
        None \<Rightarrow> []
      | Some d \<Rightarrow> (case schemaCoordinates d of None \<Rightarrow> [] | Some cs \<Rightarrow> cs))"

definition denySchemaCoordinate :: "options \<Rightarrow> bool" where
  "denySchemaCoordinate opts =
     visit (schema (args (params opts))) (denySchemaCoordinate_Field (schemaCoordinateDenyList opts))
       (document (args (params opts))) False"


section \<open>The emission policy\<close>

text \<open>
  Modelled from the spec: \<open>allowOperation\<close>, which \<^verbatim>\<open>should-send-event.ts\<close> imports from
  \<^verbatim>\<open>./tools\<close>, a module that is not among the sources. Rule 1 of the cascade (section 4.4)
  denies when "the operation's kind is not in the configured allowed set", an unknown kind
  is never allowed and an absent allow-list allows nothing (section 7): this is the check
  that \<^verbatim>\<open>schema-helpers.ts\<close> exports as \<open>sendOperation\<close>.
\<close>

definition allowOperation :: "options \<Rightarrow> (error + bool) \<times> log" where
  "allowOperation opts = sendOperation opts"

text \<open>\<open>options.result?.errors !== undefined && options.result.errors.length > 0\<close>\<close>

definition hasErrors :: "options \<Rightarrow> bool" where
  "hasErrors opts =
     (case result opts of
        None \<Rightarrow> False
      | Some r \<Rightarrow> (case errors r of None \<Rightarrow> False | Some es \<Rightarrow> length es > 0))"

definition bool_string :: "bool \<Rightarrow> string" where
  "bool_string b = (if b then ''true'' else ''false'')"

text \<open>
  \<open>shouldSendEvent\<close> first evaluates the six signals, in the order of the source, then
  runs the cascade. It is an \<open>async\<close> function: an exception thrown while a signal is
  evaluated rejects the returned promise, which is the \<open>Inl\<close> outcome. The second
  component is what was written to the logger.
\<close>

definition shouldSendEvent :: "options \<Rightarrow> (error + bool) \<times> log" where
  "shouldSendEvent opts =
     (case allowOperation opts of
        (Inl e, lg) \<Rightarrow> (Inl e, lg)
      | (Inr allowedOperation, lg) \<Rightarrow>
          (case isAnonymousOperation (params opts) of
             Inl e \<Rightarrow> (Inl e, lg)
           | Inr isAnonymous \<Rightarrow>
               (let isIntrospection = isIntrospectionQuery (params opts);
                    hasErrs = hasErrors opts;
                    shouldDenyType = denyType opts;
                    shouldDenySchemaCoordinate = denySchemaCoordinate opts
                in
                if \<not> allowedOperation then
                  (Inr False, lg @ [''Blocking event '' @ eventName opts
                     @ '' because it is not an configured operation.''])
                else if shouldDenyType then
                  (Inr False, lg @ [''Blocking event '' @ eventName opts
                     @ '' because it is present in the denylist of types.''])
                else if shouldDenySchemaCoordinate then
                  (Inr False, lg @ [''Blocking event '' @ eventName opts
                     @ '' because it is present in the denylist of schema coordinates.''])
                else if isAnonymous \<and> sendAnonymousOperations opts then
                  (Inr True, lg @ [''Sending event '' @ eventName opts
                     @ '' because anonymous operations are configured.''])
                else if isIntrospection \<and> sendIntrospection opts then
                  (Inr True, lg @ [''Sending event '' @ eventName opts
                     @ '' because introspection queries are configured.''])
                else if hasErrs \<and> sendErrors opts then
                  (Inr True, lg @ [''Sending event '' @ eventName opts
                     @ '' because sending errors is configured.''])
                else
                  (let shouldSend = (\<not> isIntrospection \<and> \<not> hasErrs) in
                   if shouldSend then
                     (Inr shouldSend, lg @ [''Sending event '' @ eventName opts
                        @ '' because it is an introspection '' @ bool_string isIntrospection
                        @ '' or error '' @ bool_string hasErrs])
                   else
                     (Inr shouldSend, lg @ [''Blocking event '' @ eventName opts
                        @ '' because it is not an introspection '' @ bool_string isIntrospection
                        @ '' or error '' @ bool_string hasErrs])))))"

section \<open>Entity extraction\<close>

text \<open>
  \<open>identifierSet\<close> is a JavaScript \<open>Map\<close> and \<open>typeSet\<close> a \<open>Set\<close>: both keep insertion
  order, and setting a key that is present replaces its value in place.
\<close>

fun Map_set :: "'k \<Rightarrow> 'v \<Rightarrow> ('k \<times> 'v) list \<Rightarrow> ('k \<times> 'v) list" where
  "Map_set k v [] = [(k, v)]"
| "Map_set k v (e # m) = (if fst e = k then (k, v) # m else e # Map_set k v m)"

definition Set_add :: "'a \<Rightarrow> 'a list \<Rightarrow> 'a list" where
  "Set_add x xs = (if x \<in> set xs then xs else xs @ [x])"

record entity_record =
  typename :: string
  entity_id :: js_value

record collector =
  identifierSet :: "(string \<times> entity_record) list"
  typeSet :: "string list"

definition idFields :: "string list" where
  "idFields = [''id'']"

definition identifier_key :: "string \<Rightarrow> js_value \<Rightarrow> string" where
  "identifier_key tn v = tn @ '':'' @ toString v"

text \<open>
  The visitor map handed to \<open>visitResult\<close> is a proxy: asked for a type name and then for
  a field name, it answers a callback for the fields of \<open>idFields\<close> and \<open>undefined\<close> for
  every other name (\<open>documentChanged\<close> is the constant \<open>false\<close>, so the branch it guards
  is never taken). The callback stores the pair under the key \<open>`${typename}:${id}`\<close>.
\<close>

definition resultVisitorMap :: "string \<Rightarrow> string \<Rightarrow> (js_value \<Rightarrow> collector \<Rightarrow> collector) option" where
  "resultVisitorMap tn fieldName =
     (if fieldName \<in> set idFields then
        Some (\<lambda>v c. \<lparr>identifierSet =
                        Map_set (identifier_key tn v) \<lparr>typename = tn, entity_id = v\<rparr> (identifierSet c),
                      typeSet = Set_add tn (typeSet c)\<rparr>)
      else None)"

text \<open>
  \<open>visitResult\<close> belongs to \<^verbatim>\<open>@graphql-tools/utils\<close>. It reads \<open>result.data\<close>, so a
  missing result raises a \<open>TypeError\<close>; it resolves the operation of the request with
  \<open>getOperationAST\<close> and raises an error when there is none; and when the result has data
  (neither \<open>null\<close> nor \<open>undefined\<close>) it walks the data along the operation, the document
  and the schema. For each field of each object the walk looks up
  \<open>visitorMap[typeName][fieldName]\<close> and calls what it finds with the value of the field.
  The walk of the data is a parameter of the model: it yields these lookups as a list of
  (type name, field name, value), in the order of the walk, or fails.
\<close>

record request =
  request_document :: document_node
  request_operationName :: "string option"

type_synonym visit_root_fn =
  "js_value \<Rightarrow> definition_node \<Rightarrow> request \<Rightarrow> gql_schema \<Rightarrow> error + (string \<times> string \<times> js_value) list"

definition has_data :: "execution_result \<Rightarrow> bool" where
  "has_data r = (data r \<noteq> JSUndefined \<and> data r \<noteq> JSNull)"

definition visitResult ::
    "visit_root_fn \<Rightarrow> execution_result option \<Rightarrow> request \<Rightarrow> gql_schema
       \<Rightarrow> error + (string \<times> string \<times> js_value) list" where
  "visitResult visitRoot res req sch =
     (case res of
        None \<Rightarrow> Inl TypeError
      | Some r \<Rightarrow>
          (case getOperationAST (request_document req) (request_operationName req) of
             None \<Rightarrow> Inl CannotInferOperation
           | Some operation \<Rightarrow>
               if has_data r then visitRoot (data r) operation req sch else Inr []))"

definition apply_visitor :: "string \<times> string \<times> js_value \<Rightarrow> collector \<Rightarrow> collector" where
  "apply_visitor ev c =
     (case ev of (tn, fieldName, v) \<Rightarrow>
        (case resultVisitorMap tn fieldName of None \<Rightarrow> c | Some callback \<Rightarrow> callback v c))"

definition collect :: "(string \<times> string \<times> js_value) list \<Rightarrow> collector" where
  "collect evs = fold apply_visitor evs \<lparr>identifierSet = [], typeSet = []\<rparr>"

text \<open>
  \<open>buildTypeIdentifiers\<close> returns \<open>{ types, identifiers }\<close>, here the pair of the two
  lists. \<open>getOperationName(options)\<close> is evaluated while the request is built, before
  \<open>visitResult\<close> is called.
\<close>

definition buildTypeIdentifiers ::
    "visit_root_fn \<Rightarrow> options \<Rightarrow> error + (string list \<times> entity_record list)" where
  "buildTypeIdentifiers visitRoot opts =
     (case getOperationName (params opts) of
        Inl e \<Rightarrow> Inl e
      | Inr nm \<Rightarrow>
          (case visitResult visitRoot (result opts)
                  \<lparr>request_document = document (args (params opts)), request_operationName = nm\<rparr>
                  (schema (args (params opts))) of
             Inl e \<Rightarrow> Inl e
           | Inr evs \<Rightarrow>
               (let c = collect evs in
                Inr (typeSet c, map snd (identifierSet c)))))"

section \<open>Reference notions for the statements\<close>

text \<open>
  The fields on which a callback was called during a walk, and the prefix of a list up to
  and including its first element that satisfies a predicate.
\<close>

definition callbacks_of ::
    "bool field_visitor \<Rightarrow> gql_schema \<Rightarrow> document_node \<Rightarrow> (type_info \<times> name) list" where
  "callbacks_of v sch doc = fst (visit sch (traced v) doc ([], False))"

definition up_to_first :: "('a \<Rightarrow> bool) \<Rightarrow> 'a list \<Rightarrow> 'a list" where
  "up_to_first P xs = takeWhile (\<lambda>x. \<not> P x) xs @ take 1 (dropWhile (\<lambda>x. \<not> P x) xs)"

text \<open>What the three walks look for in a visited field.\<close>

definition is_introspection_field :: "type_info \<times> name \<Rightarrow> bool" where
  "is_introspection_field e =
     (case getType (fst e) of None \<Rightarrow> False | Some t \<Rightarrow> isIntrospectionType (getNamedType t))"

definition is_denied_type :: "string list \<Rightarrow> type_info \<times> name \<Rightarrow> bool" where
  "is_denied_type denied e =
     (case getType (fst e) of None \<Rightarrow> False | Some t \<Rightarrow> getNamedType t \<in> set denied)"

definition is_denied_coordinate :: "string list \<Rightarrow> type_info \<times> name \<Rightarrow> bool" where
  "is_denied_coordinate denied e =
     (case getParentType (fst e) of
        None \<Rightarrow> False
      | Some parentType \<Rightarrow> schemaCoordinate parentType (snd e) \<in> set denied)"

text \<open>A callback that sets its flag and stops at the first field satisfying \<open>P\<close>.\<close>

definition searches :: "bool field_visitor \<Rightarrow> (type_info \<times> name \<Rightarrow> bool) \<Rightarrow> bool" where
  "searches v P = (\<forall>ti f b. v ti f b = (if P (ti, f) then (BREAK, True) else (Undefined, b)))"

text \<open>
  The name of an operation in the words of the specification: the operation name passed
  with the request if there is one, else the name the operation declares, else none.
  A name resolves when the request carries a non-empty operation name or the document
  has an operation definition.
\<close>

definition hasOperationDefinition :: "document_node \<Rightarrow> bool" where
  "hasOperationDefinition doc = (\<exists>d \<in> set doc. isOperationDefinition d)"

definition resolvable :: "on_execute_payload \<Rightarrow> bool" where
  "resolvable p =
     (hasOperationDefinition (document (args p)) \<or> truthy_string (operationName (args p)) \<noteq> None)"

definition operationNameOf :: "on_execute_payload \<Rightarrow> string option" where
  "operationNameOf p =
     (case truthy_string (operationName (args p)) of
        Some nm \<Rightarrow> Some nm
      | None \<Rightarrow>
          (case find isOperationDefinition (document (args p)) of
             Some (OperationDefinition op n sels) \<Rightarrow> truthy_string n
           | _ \<Rightarrow> None))"

text \<open>
  The pairs a walk of the result reports to the \<open>id\<close> callback, the key under which the
  callback stores a pair, and the effect of one call of the callback.
\<close>

definition observed :: "(string \<times> string \<times> js_value) list \<Rightarrow> entity_record list" where
  "observed evs =
     map (\<lambda>(tn, fieldName, v). \<lparr>typename = tn, entity_id = v\<rparr>)
         (filter (\<lambda>(tn, fieldName, v). fieldName \<in> set idFields) evs)"

definition entity_key :: "entity_record \<Rightarrow> string" where
  "entity_key e = identifier_key (typename e) (entity_id e)"

definition record_entity :: "entity_record \<Rightarrow> collector \<Rightarrow> collector" where
  "record_entity e c =
     \<lparr>identifierSet = Map_set (entity_key e) e (identifierSet c),
      typeSet = Set_add (typename e) (typeSet c)\<rparr>"

text \<open>An identifier map whose keys are distinct and are the keys of the stored pairs.\<close>

definition keyed :: "(string \<times> entity_record) list \<Rightarrow> bool" where
  "keyed m = (distinct (map fst m) \<and> (\<forall>(k, e) \<in> set m. k = entity_key e))"

text \<open>The request that \<open>buildTypeIdentifiers\<close> hands to \<open>visitResult\<close> when the name resolves.\<close>

definition request_of :: "options \<Rightarrow> request" where
  "request_of opts =
     \<lparr>request_document = document (args (params opts)),
      request_operationName = operationNameOf (params opts)\<rparr>"

text \<open>A walk of the data that reports the given lookups.\<close>

definition walk_yielding :: "(string \<times> string \<times> js_value) list \<Rightarrow> visit_root_fn" where
  "walk_yielding evs = (\<lambda>d operation req sch. Inr evs)"

text \<open>An operation returns when it ends with a value and not with an exception.\<close>

definition returns :: "'e + 'a \<Rightarrow> bool" where
  "returns outcome = (case outcome of Inl e \<Rightarrow> False | Inr v \<Rightarrow> True)"

section \<open>Example inputs\<close>

text \<open>The schema of the plugin's tests, with the two introspection types the examples reach.\<close>

definition example_schema :: gql_schema where
  "example_schema =
     \<lparr>typeMap =
        [(''Query'', \<lparr>typeKind = OBJECT, getFields =
            [(''test'', NonNullType (NamedType ''String'')),
             (''post'', NonNullType (NamedType ''Post'')),
             (''posts'', NonNullType (ListType (NonNullType (NamedType ''Post''))))]\<rparr>),
         (''Post'', \<lparr>typeKind = OBJECT, getFields =
            [(''id'', NonNullType (NamedType ''ID'')),
             (''title'', NonNullType (NamedType ''String'')),
             (''comments'', NonNullType (ListType (NonNullType (NamedType ''Comment''))))]\<rparr>),
         (''Comment'', \<lparr>typeKind = OBJECT, getFields =
            [(''id'', NonNullType (NamedType ''ID'')),
             (''body'', NonNullType (NamedType ''String''))]\<rparr>),
         (''String'', \<lparr>typeKind = SCALAR, getFields = []\<rparr>),
         (''ID'', \<lparr>typeKind = SCALAR, getFields = []\<rparr>),
         (''__Schema'', \<lparr>typeKind = OBJECT, getFields =
            [(''types'', NonNullType (ListType (NonNullType (NamedType ''__Type''))))]\<rparr>),
         (''__Type'', \<lparr>typeKind = OBJECT, getFields =
            [(''name'', NamedType ''String'')]\<rparr>)],
      queryType = Some ''Query'', mutationType = None, subscriptionType = None\<rparr>"

definition example_options :: "document_node \<Rightarrow> options" where
  "example_options doc =
     \<lparr>params = \<lparr>args = \<lparr>schema = example_schema, document = doc, operationName = None\<rparr>\<rparr>,
      result = Some \<lparr>data = JSNull, errors = None\<rparr>,
      eventName = ''graphql-test/event'',
      sendOperations = Some [query, mutation, subscription],
      sendAnonymousOperations = False,
      sendIntrospection = False,
      sendErrors = False,
      denylist = None\<rparr>"

text \<open>\<open>query { test }\<close>\<close>
definition doc_test :: document_node where
  "doc_test = [OperationDefinition query None [Field ''test'' []]]"

text \<open>\<open>query FindPosts { posts { id } }\<close>\<close>
definition doc_find_posts :: document_node where
  "doc_find_posts = [OperationDefinition query (Some ''FindPosts'') [Field ''posts'' [Field ''id'' []]]]"

text \<open>\<open>fragment PostId on Post { id }\<close>\<close>
definition doc_fragment_only :: document_node where
  "doc_fragment_only = [FragmentDefinition ''PostId'' ''Post'' [Field ''id'' []]]"

text \<open>\<open>query Mixed { __schema { types { name } } post { id } }\<close>\<close>
definition doc_mixed :: document_node where
  "doc_mixed =
     [OperationDefinition query (Some ''Mixed'')
        [Field ''__schema'' [Field ''types'' [Field ''name'' []]], Field ''post'' [Field ''id'' []]]]"

text \<open>\<open>query { test } query { post { id } }\<close>\<close>
definition doc_two_anonymous :: document_node where
  "doc_two_anonymous =
     [OperationDefinition query None [Field ''test'' []],
      OperationDefinition query None [Field ''post'' [Field ''id'' []]]]"

definition options_denied_introspection :: options where
  "options_denied_introspection =
     (example_options doc_mixed)
       \<lparr>result := Some \<lparr>data = JSNull, errors = Some [''failed'']\<rparr>,
        sendAnonymousOperations := True,
        sendIntrospection := True,
        sendErrors := True,
        denylist := Some \<lparr>types = Some [''Post''], schemaCoordinates = None\<rparr>\<rparr>"

definition options_fragment_denied :: options where
  "options_fragment_denied =
     (example_options doc_fragment_only)
       \<lparr>sendIntrospection := True,
        denylist := Some \<lparr>types = Some [''ID''], schemaCoordinates = None\<rparr>\<rparr>"

definition options_with_errors :: options where
  "options_with_errors =
     (example_options doc_find_posts)\<lparr>result := Some \<lparr>data = JSNull, errors = Some [''failed'']\<rparr>\<rparr>"

definition params_named :: on_execute_payload where
  "params_named = \<lparr>args = \<lparr>schema = example_schema, document = doc_find_posts, operationName = Some ''Explicit''\<rparr>\<rparr>"

definition options_missing_result :: options where
  "options_missing_result =
     (example_options doc_test)\<lparr>result := None, sendOperations := None, denylist := None\<rparr>"

definition options_coordinate_denied :: options where
  "options_coordinate_denied =
     (example_options doc_find_posts)
       \<lparr>denylist := Some \<lparr>types = None, schemaCoordinates = Some [''Post.id'']\<rparr>\<rparr>"

definition options_id_type_listed_as_coordinate :: options where
  "options_id_type_listed_as_coordinate =
     (example_options doc_find_posts)
       \<lparr>denylist := Some \<lparr>types = None, schemaCoordinates = Some [''ID'', ''ID.id'', ''posts.id'']\<rparr>\<rparr>"

text \<open>
  Results, as the plugin's tests build them, and the lookups that the walk of each result
  makes in the visitor map: for every post its \<open>id\<close> and its \<open>__typename\<close>, then the
  field \<open>posts\<close> of the root. The first result holds the posts 5, 7, 5 again and 11; the
  second holds a post with the id \<open>5\<close>, a number, and a post with the id \<open>'5'\<close>, a string.
\<close>

definition post :: "js_value \<Rightarrow> js_value" where
  "post v = JSObject [(''id'', v), (''__typename'', JSString ''Post'')]"

definition posts_result :: execution_result where
  "posts_result =
     \<lparr>data = JSObject [(''posts'', JSArray [post (JSNumber ''5''), post (JSNumber ''7''),
                                           post (JSNumber ''5''), post (JSNumber ''11'')])],
      errors = Some []\<rparr>"

definition example_events :: "(string \<times> string \<times> js_value) list" where
  "example_events =
     [(''Post'', ''id'', JSNumber ''5''), (''Post'', ''__typename'', JSString ''Post''),
      (''Post'', ''id'', JSNumber ''7''), (''Post'', ''__typename'', JSString ''Post''),
      (''Post'', ''id'', JSNumber ''5''), (''Post'', ''__typename'', JSString ''Post''),
      (''Post'', ''id'', JSNumber ''11''), (''Post'', ''__typename'', JSString ''Post''),
      (''Query'', ''posts'', JSArray [post (JSNumber ''5''), post (JSNumber ''7''),
                                     post (JSNumber ''5''), post (JSNumber ''11'')])]"

definition options_find_posts :: options where
  "options_find_posts = (example_options doc_find_posts)\<lparr>result := Some posts_result\<rparr>"

definition collision_result :: execution_result where
  "collision_result =
     \<lparr>data = JSObject [(''posts'', JSArray [post (JSNumber ''5''), post (JSString ''5'')])],
      errors = Some []\<rparr>"

definition collision_events :: "(string \<times> string \<times> js_value) list" where
  "collision_events =
     [(''Post'', ''id'', JSNumber ''5''), (''Post'', ''__typename'', JSString ''Post''),
      (''Post'', ''id'', JSString ''5''), (''Post'', ''__typename'', JSString ''Post''),
      (''Query'', ''posts'', JSArray [post (JSNumber ''5''), post (JSString ''5'')])]"

definition options_collision :: options where
  "options_collision = (example_options doc_find_posts)\<lparr>result := Some collision_result\<rparr>"

text \<open>
  \<open>query { test }\<close> with the result \<open>{ data: { test: 'hello' }, errors: [] }\<close>, no
  allow-list and no denylist.
\<close>

definition options_absent_config :: options where
  "options_absent_config =
     (example_options doc_test)
       \<lparr>result := Some \<lparr>data = JSObject [(''test'', JSString ''hello'')], errors = Some []\<rparr>,
        sendOperations := None,
        denylist := None\<rparr>"

definition test_events :: "(string \<times> string \<times> js_value) list" where
  "test_events = [(''Query'', ''test'', JSString ''hello'')]"

section \<open>The walk calls its callback on the visited fields, in order, until \<open>BREAK\<close>\<close>

lemma run_visitor_append:
  "run_visitor v (xs @ ys) st =
     (case run_visitor v xs st of (BREAK, st') \<Rightarrow> (BREAK, st') | (Undefined, st') \<Rightarrow> run_visitor v ys st')"
  by (induction xs arbitrary: st) (auto split: prod.splits visit_action.splits)

lemma visit_selection_run:
  "visit_selection sch v t parent s st = run_visitor v (fields_of_selection sch t parent s) st"
  "visit_selections sch v t parent ss st = run_visitor v (fields_of_selections sch t parent ss) st"
  by (induction sch v t parent s st and sch v t parent ss st
        rule: visit_selection_visit_selections.induct)
     (auto simp: Let_def run_visitor_append split: prod.splits visit_action.splits)

lemma visit_definition_run:
  "visit_definition sch v d st = run_visitor v (fields_of_definition sch d) st"
  by (cases d) (simp_all add: Let_def visit_selection_run)

lemma visit_definitions_run:
  "visit_definitions sch v ds st = run_visitor v (concat (map (fields_of_definition sch) ds)) st"
  by (induction ds arbitrary: st)
     (auto simp: run_visitor_append visit_definition_run split: prod.splits visit_action.splits)

lemma visit_run: "visit sch v doc st = snd (run_visitor v (visited_fields sch doc) st)"
  by (simp add: visit_def visited_fields_def visit_definitions_run)

lemma run_search_flag:
  assumes "searches v P"
  shows "snd (run_visitor v es b) = (b \<or> (\<exists>e \<in> set es. P e))"
  using assms
  by (induction es arbitrary: b) (auto simp: searches_def)

lemma run_search_trace:
  assumes "searches v P"
  shows "fst (snd (run_visitor (traced v) es (lg, b))) = lg @ up_to_first P es"
  using assms
  by (induction es arbitrary: lg b) (auto simp: searches_def traced_def up_to_first_def)

lemma searches_introspection: "searches isIntrospectionQuery_Field is_introspection_field"
  by (auto simp: searches_def isIntrospectionQuery_Field_def is_introspection_field_def
           split: option.splits)

lemma searches_denyType: "searches (denyType_Field denied) (is_denied_type denied)"
  by (auto simp: searches_def denyType_Field_def is_denied_type_def split: option.splits)

lemma searches_denySchemaCoordinate:
  "searches (denySchemaCoordinate_Field denied) (is_denied_coordinate denied)"
  by (auto simp: searches_def denySchemaCoordinate_Field_def is_denied_coordinate_def
           split: option.splits)

lemma is_introspection_field_iff:
  "is_introspection_field e = (\<exists>t. getType (fst e) = Some t \<and> isIntrospectionType (getNamedType t))"
  by (simp add: is_introspection_field_def split: option.splits)

lemma is_denied_type_iff:
  "is_denied_type denied e = (\<exists>t. getType (fst e) = Some t \<and> getNamedType t \<in> set denied)"
  by (simp add: is_denied_type_def split: option.splits)

text \<open>\<open>denyType\<close> is true exactly when a visited field has a denied named type.\<close>

lemma denyType_iff:
  "denyType opts =
     (\<exists>e \<in> set (visited_fields (schema (args (params opts))) (document (args (params opts)))).
        \<exists>t. getType (fst e) = Some t \<and> getNamedType t \<in> set (typeDenyList opts))"
  using run_search_flag [OF searches_denyType, of _ _ False]
  by (simp add: denyType_def visit_run is_denied_type_iff)

section \<open>Operation names and the allow-list\<close>

lemma find_operation:
  "hasOperationDefinition doc \<Longrightarrow> \<exists>op n sels. find isOperationDefinition doc = Some (OperationDefinition op n sels)"
  unfolding hasOperationDefinition_def
proof (induction doc)
  case Nil
  then show ?case by simp
next
  case (Cons d ds)
  then show ?case by (cases d) auto
qed

lemma find_no_operation:
  "\<not> hasOperationDefinition doc \<Longrightarrow> find isOperationDefinition doc = None"
  by (auto simp: hasOperationDefinition_def find_None_iff)

lemma getOperationName_cases:
  "getOperationName p = (if resolvable p then Inr (operationNameOf p) else Inl TypeError)"
proof (cases "truthy_string (operationName (args p))")
  case (Some nm)
  then show ?thesis by (simp add: getOperationName_def resolvable_def operationNameOf_def)
next
  case None
  show ?thesis
  proof (cases "hasOperationDefinition (document (args p))")
    case True
    from find_operation [OF this] None True show ?thesis
      by (auto simp: getOperationName_def resolvable_def operationNameOf_def Let_def)
  next
    case False
    from find_no_operation [OF this] None False show ?thesis
      by (simp add: getOperationName_def resolvable_def Let_def)
  qed
qed

lemma getOperationAST_from_Some:
  "getOperationAST_from acc ds nm = Some d \<Longrightarrow> acc = Some d \<or> d \<in> set ds"
  by (induction acc ds nm rule: getOperationAST_from.induct) (auto split: option.splits if_splits)

lemma getOperation_known_resolvable:
  assumes "getOperation p = Operation op"
  shows "hasOperationDefinition (document (args p))"
proof -
  from assms obtain n sels where
    "getOperationAST (document (args p)) (operationName (args p)) = Some (OperationDefinition op n sels)"
    by (auto simp: getOperation_def split: option.splits definition_node.splits)
  then have "OperationDefinition op n sels \<in> set (document (args p))"
    using getOperationAST_from_Some by (fastforce simp: getOperationAST_def)
  then show ?thesis
    by (force simp: hasOperationDefinition_def)
qed

lemma sendOperation_log0:
  "strict_equals_undefined (js_not b) = False"
  by (simp add: strict_equals_undefined_def js_not_def)

lemma sendOperation_value:
  "fst (sendOperation opts) =
     Inr (case getOperation (params opts) of
            unknown \<Rightarrow> False
          | Operation op \<Rightarrow> op \<in> set (case sendOperations opts of None \<Rightarrow> [] | Some xs \<Rightarrow> xs))"
proof (cases "getOperation (params opts)")
  case unknown
  then show ?thesis by (simp add: sendOperation_def Let_def)
next
  case (Operation op)
  from getOperation_known_resolvable [OF this]
  have "getOperationName (params opts) = Inr (operationNameOf (params opts))"
    by (simp add: getOperationName_cases resolvable_def)
  with Operation show ?thesis
    by (simp add: sendOperation_def Let_def)
qed

lemma allowed_resolvable:
  assumes "fst (allowOperation opts) = Inr True"
  shows "resolvable (params opts)"
proof (cases "getOperation (params opts)")
  case unknown
  with assms show ?thesis by (simp add: allowOperation_def sendOperation_value)
next
  case (Operation op)
  from getOperation_known_resolvable [OF this] show ?thesis by (simp add: resolvable_def)
qed

lemma shouldSendEvent_value:
  assumes "fst (allowOperation opts) = Inr allowed"
    and "isAnonymousOperation (params opts) = Inr anon"
  shows "fst (shouldSendEvent opts) =
     Inr (if \<not> allowed then False
          else if denyType opts then False
          else if denySchemaCoordinate opts then False
          else if anon \<and> sendAnonymousOperations opts then True
          else if isIntrospectionQuery (params opts) \<and> sendIntrospection opts then True
          else if hasErrors opts \<and> sendErrors opts then True
          else \<not> isIntrospectionQuery (params opts) \<and> \<not> hasErrors opts)"
  using assms
  by (cases "allowOperation opts") (simp add: shouldSendEvent_def Let_def)

lemma shouldSendEvent_failure:
  assumes "\<not> resolvable (params opts)"
  shows "fst (shouldSendEvent opts) = Inl TypeError"
proof -
  obtain b lg where a: "allowOperation opts = (Inr b, lg)"
    using sendOperation_value [of opts] by (cases "allowOperation opts") (auto simp: allowOperation_def)
  from assms have "isAnonymousOperation (params opts) = Inl TypeError"
    by (simp add: isAnonymousOperation_def getOperationName_cases)
  with a show ?thesis by (simp add: shouldSendEvent_def)
qed

lemma isAnonymousOperation_cases:
  "isAnonymousOperation p = (if resolvable p then Inr (operationNameOf p = None) else Inl TypeError)"
  by (simp add: isAnonymousOperation_def getOperationName_cases)


lemma allowOperation_total: "\<exists>b lg. allowOperation opts = (Inr b, lg)"
  using sendOperation_value [of opts]
  by (cases "sendOperation opts") (auto simp: allowOperation_def)

lemma signals_ignore_anonymous_flag:
  "fst (allowOperation (opts\<lparr>sendAnonymousOperations := flag\<rparr>)) = fst (allowOperation opts)"
  "denyType (opts\<lparr>sendAnonymousOperations := flag\<rparr>) = denyType opts"
  "denySchemaCoordinate (opts\<lparr>sendAnonymousOperations := flag\<rparr>) = denySchemaCoordinate opts"
  "hasErrors (opts\<lparr>sendAnonymousOperations := flag\<rparr>) = hasErrors opts"
  by (simp_all add: allowOperation_def sendOperation_value denyType_def typeDenyList_def
        denySchemaCoordinate_def schemaCoordinateDenyList_def hasErrors_def
      split: operation_or_unknown.splits)

lemma unknown_never_sent:
  assumes "getOperation (params opts) = unknown"
  shows "fst (shouldSendEvent opts) \<noteq> Inr True"
proof -
  from assms have a: "fst (allowOperation opts) = Inr False"
    by (simp add: allowOperation_def sendOperation_value)
  show ?thesis
  proof (cases "isAnonymousOperation (params opts)")
    case (Inl e)
    with a show ?thesis
      by (cases "allowOperation opts") (simp add: shouldSendEvent_def)
  next
    case (Inr anon)
    from shouldSendEvent_value [OF a Inr] show ?thesis by simp
  qed
qed

lemma no_operations_warning_never_logged:
  "''No operations are allowed.'' \<notin> set (snd (sendOperation opts))"
  by (auto simp: sendOperation_def Let_def sendOperation_log0
           split: operation_or_unknown.splits sum.splits)

lemma is_denied_coordinate_iff:
  "is_denied_coordinate d e =
     (\<exists>parentType. getParentType (fst e) = Some parentType \<and> schemaCoordinate parentType (snd e) \<in> set d)"
  by (simp add: is_denied_coordinate_def split: option.splits)

section \<open>The identifier map and the type set\<close>

lemma fold_apply_visitor:
  "fold apply_visitor evs c = fold record_entity (observed evs) c"
  by (induction evs arbitrary: c)
     (auto simp: observed_def apply_visitor_def resultVisitorMap_def record_entity_def
        entity_key_def)

lemma collect_observed:
  "collect evs = fold record_entity (observed evs) \<lparr>identifierSet = [], typeSet = []\<rparr>"
  by (simp add: collect_def fold_apply_visitor)

lemma Map_set_keys: "fst ` set (Map_set k v m) = insert k (fst ` set m)"
  by (induction m) auto

lemma Map_set_distinct: "distinct (map fst m) \<Longrightarrow> distinct (map fst (Map_set k v m))"
  by (induction m) (auto simp: Map_set_keys)

lemma Map_set_entries: "set (Map_set k v m) \<subseteq> insert (k, v) (set m)"
  by (induction m) auto

lemma Set_add_set: "set (Set_add x xs) = insert x (set xs)"
  by (auto simp: Set_add_def)

lemma Set_add_distinct: "distinct xs \<Longrightarrow> distinct (Set_add x xs)"
  by (simp add: Set_add_def)

lemma fold_record_identifiers:
  "keyed (identifierSet c) \<Longrightarrow>
     keyed (identifierSet (fold record_entity es c))
     \<and> set (map fst (identifierSet (fold record_entity es c)))
         = set (map fst (identifierSet c)) \<union> entity_key ` set es
     \<and> snd ` set (identifierSet (fold record_entity es c))
         \<subseteq> snd ` set (identifierSet c) \<union> set es"
proof (induction es arbitrary: c)
  case Nil
  then show ?case by simp
next
  case (Cons e es)
  let ?c = "record_entity e c"
  have k: "keyed (identifierSet ?c)"
    using Cons.prems Map_set_entries [of "entity_key e" e "identifierSet c"]
    by (auto simp: keyed_def record_entity_def Map_set_distinct)
  have s: "snd ` set (identifierSet ?c) \<subseteq> insert e (snd ` set (identifierSet c))"
    using Map_set_entries [of "entity_key e" e "identifierSet c"]
    by (auto simp: record_entity_def)
  have f: "set (map fst (identifierSet ?c)) = insert (entity_key e) (set (map fst (identifierSet c)))"
    by (simp add: record_entity_def Map_set_keys)
  from Cons.IH [OF k]
  have 1: "keyed (identifierSet (fold record_entity es ?c))"
    and 2: "set (map fst (identifierSet (fold record_entity es ?c)))
              = set (map fst (identifierSet ?c)) \<union> entity_key ` set es"
    and 3: "snd ` set (identifierSet (fold record_entity es ?c))
              \<subseteq> snd ` set (identifierSet ?c) \<union> set es"
    by simp_all
  show ?case
  proof (intro conjI)
    show "keyed (identifierSet (fold record_entity (e # es) c))"
      using 1 by simp
    show "set (map fst (identifierSet (fold record_entity (e # es) c)))
            = set (map fst (identifierSet c)) \<union> entity_key ` set (e # es)"
      using 2 f by simp
    show "snd ` set (identifierSet (fold record_entity (e # es) c))
            \<subseteq> snd ` set (identifierSet c) \<union> set (e # es)"
      using 3 s by auto
  qed
qed

lemma fold_record_types:
  "distinct (typeSet c) \<Longrightarrow>
     distinct (typeSet (fold record_entity es c))
     \<and> set (typeSet (fold record_entity es c)) = set (typeSet c) \<union> typename ` set es"
proof (induction es arbitrary: c)
  case Nil
  then show ?case by simp
next
  case (Cons e es)
  have d: "distinct (typeSet (record_entity e c))"
    using Cons.prems by (simp add: record_entity_def Set_add_distinct)
  from Cons.IH [OF d] show ?case
    by (auto simp: record_entity_def Set_add_set)
qed

lemma keyed_values:
  assumes "keyed m"
  shows "map entity_key (map snd m) = map fst m"
  using assms by (induction m) (auto simp: keyed_def)

lemma collect_identifiers:
  fixes evs
  defines "ids \<equiv> map snd (identifierSet (collect evs))"
  shows "distinct (map entity_key ids)"
    and "entity_key ` set ids = entity_key ` set (observed evs)"
    and "set ids \<subseteq> set (observed evs)"
proof -
  let ?m = "identifierSet (collect evs)"
  have k0: "keyed (identifierSet \<lparr>identifierSet = [], typeSet = []\<rparr>)"
    by (simp add: keyed_def)
  from fold_record_identifiers [OF k0, of "observed evs"]
  have k: "keyed ?m"
    and f: "set (map fst ?m) = entity_key ` set (observed evs)"
    and s: "snd ` set ?m \<subseteq> set (observed evs)"
    by (simp_all add: collect_observed)
  from keyed_values [OF k] have e: "map entity_key ids = map fst ?m"
    by (simp add: ids_def)
  from k e show "distinct (map entity_key ids)" by (simp add: keyed_def)
  from e f have "set (map entity_key ids) = entity_key ` set (observed evs)" by simp
  then show "entity_key ` set ids = entity_key ` set (observed evs)" by simp
  from s show "set ids \<subseteq> set (observed evs)" by (simp add: ids_def)
qed

lemma collect_types:
  "distinct (typeSet (collect evs))"
  "set (typeSet (collect evs)) = typename ` set (observed evs)"
  using fold_record_types [of "\<lparr>identifierSet = [], typeSet = []\<rparr>" "observed evs"]
  by (simp_all add: collect_observed)

lemma exactly_one_per_pair:
  assumes d: "distinct (map entity_key ids)"
    and i: "entity_key ` set ids = entity_key ` set obs"
    and s: "set ids \<subseteq> set obs"
    and inj: "inj_on entity_key (set obs)"
  shows "distinct ids \<and> set ids = set obs"
proof
  from d show "distinct ids" by (simp add: distinct_map)
  show "set ids = set obs"
  proof
    show "set ids \<subseteq> set obs" by (rule s)
    show "set obs \<subseteq> set ids"
    proof
      fix e assume e: "e \<in> set obs"
      then have "entity_key e \<in> entity_key ` set ids" using i by blast
      then obtain e' where e': "e' \<in> set ids" "entity_key e' = entity_key e" by auto
      with s have "e' \<in> set obs" by blast
      with inj e e' have "e' = e" by (auto dest: inj_onD)
      with e' show "e \<in> set ids" by simp
    qed
  qed
qed

lemma inj_on_remdups:
  assumes "distinct (map f (remdups xs))"
  shows "inj_on f (set xs)"
  using assms by (simp add: distinct_map)

lemma key_colon_injective:
  assumes "CHR '':'' \<notin> set t1" "CHR '':'' \<notin> set t2" "t1 @ '':'' @ s1 = t2 @ '':'' @ s2"
  shows "t1 = t2 \<and> s1 = s2"
  using assms
proof (induction t1 arbitrary: t2)
  case Nil
  then show ?case by (cases t2) auto
next
  case (Cons a t1)
  then show ?case by (cases t2) auto
qed

lemma string_ids_distinct_keys:
  assumes "\<forall>e \<in> set obs. CHR '':'' \<notin> set (typename e) \<and> (\<exists>s. entity_id e = JSString s)"
  shows "inj_on entity_key (set obs)"
proof (rule inj_onI)
  fix x y assume x: "x \<in> set obs" and y: "y \<in> set obs" and k: "entity_key x = entity_key y"
  from assms x y obtain sx sy where
    "entity_id x = JSString sx" "entity_id y = JSString sy"
    "CHR '':'' \<notin> set (typename x)" "CHR '':'' \<notin> set (typename y)"
    by blast
  with k key_colon_injective [of "typename x" "typename y" sx sy]
  show "x = y" by (simp add: entity_key_def identifier_key_def)
qed

section \<open>When \<open>buildTypeIdentifiers\<close> returns\<close>

lemma returns_simps [simp]: "returns (Inr v)" "\<not> returns (Inl e)"
  by (simp_all add: returns_def)

lemma returns_iff: "returns outcome = (\<exists>v. outcome = Inr v)"
  by (cases outcome) simp_all

lemma returns_visitResult:
  "returns (visitResult visitRoot res req sch) =
     (\<exists>r operation. res = Some r
        \<and> getOperationAST (request_document req) (request_operationName req) = Some operation
        \<and> (has_data r \<longrightarrow> returns (visitRoot (data r) operation req sch)))"
  by (cases res; cases "getOperationAST (request_document req) (request_operationName req)")
     (simp_all add: visitResult_def)

lemma buildTypeIdentifiers_cases:
  "buildTypeIdentifiers visitRoot opts =
     (if resolvable (params opts) then
        (case visitResult visitRoot (result opts) (request_of opts) (schema (args (params opts))) of
           Inl e \<Rightarrow> Inl e
         | Inr evs \<Rightarrow> Inr (typeSet (collect evs), map snd (identifierSet (collect evs))))
      else Inl TypeError)"
  by (simp add: buildTypeIdentifiers_def getOperationName_cases request_of_def Let_def
        split: sum.splits)

lemma returns_buildTypeIdentifiers:
  "returns (buildTypeIdentifiers visitRoot opts) =
     (resolvable (params opts)
      \<and> returns (visitResult visitRoot (result opts) (request_of opts) (schema (args (params opts)))))"
  by (simp add: buildTypeIdentifiers_cases split: sum.splits)

lemma unknown_denied_or_raises:
  assumes "getOperation (params opts) = unknown"
  shows "fst (shouldSendEvent opts) = (if resolvable (params opts) then Inr False else Inl TypeError)"
proof (cases "resolvable (params opts)")
  case True
  from assms have a: "fst (allowOperation opts) = Inr False"
    by (simp add: allowOperation_def sendOperation_value)
  from True have "isAnonymousOperation (params opts) = Inr (operationNameOf (params opts) = None)"
    by (simp add: isAnonymousOperation_cases)
  from shouldSendEvent_value [OF a this] True show ?thesis by simp
next
  case False
  then show ?thesis by (simp add: shouldSendEvent_failure)
qed

lemma shouldSendEvent_returns: "returns (fst (shouldSendEvent opts)) = resolvable (params opts)"
proof (cases "resolvable (params opts)")
  case True
  obtain b lg where a: "allowOperation opts = (Inr b, lg)"
    using allowOperation_total by blast
  from True have "isAnonymousOperation (params opts) = Inr (operationNameOf (params opts) = None)"
    by (simp add: isAnonymousOperation_cases)
  from shouldSendEvent_value [OF _ this, of b] a True show ?thesis by simp
next
  case False
  then show ?thesis by (simp add: shouldSendEvent_failure)
qed

section \<open>The introspection walk\<close>

text \<open>
  Claim C6. \<open>isIntrospectionQuery\<close> returns true if and only if some field that a complete
  walk of the document visits, with the type information of the schema attached, has a
  resolved named output type that is one of the introspection types. The walk stops at
  the first such field: its callback is called on the visited fields up to and including
  that one, and on no field after it. The document is an immutable value here, as in the
  source, where the callback takes no node, returns only \<open>undefined\<close> or \<open>BREAK\<close> and writes
  nothing but its flag.
\<close>

theorem isIntrospectionQuery_first_match:
  "isIntrospectionQuery p =
     (\<exists>e \<in> set (visited_fields (schema (args p)) (document (args p))).
        \<exists>t. getType (fst e) = Some t \<and> isIntrospectionType (getNamedType t))
   \<and> callbacks_of isIntrospectionQuery_Field (schema (args p)) (document (args p)) =
       up_to_first is_introspection_field (visited_fields (schema (args p)) (document (args p)))"
  using run_search_flag [OF searches_introspection, of _ False]
        run_search_trace [OF searches_introspection, of _ "[]" False]
  by (simp add: isIntrospectionQuery_def callbacks_of_def visit_run is_introspection_field_iff)

text \<open>
  In \<open>query Mixed { __schema { types { name } } post { id } }\<close> the first of the five
  fields is an introspection field: the callback is called on it and on no other field.
  In \<open>query FindPosts { posts { id } }\<close> no field is, and the callback is called on all.
\<close>

theorem isIntrospectionQuery_first_match_witness:
  "isIntrospectionQuery (params (example_options doc_mixed))
   \<and> length (visited_fields example_schema doc_mixed) = 5
   \<and> callbacks_of isIntrospectionQuery_Field example_schema doc_mixed
        = [(\<lparr>getType = Some (NonNullType (NamedType ''__Schema'')), getParentType = Some ''Query''\<rparr>,
            ''__schema'')]
   \<and> \<not> isIntrospectionQuery (params (example_options doc_find_posts))
   \<and> callbacks_of isIntrospectionQuery_Field example_schema doc_find_posts
        = visited_fields example_schema doc_find_posts"
proof -
  have s: "schema (args (params (example_options d))) = example_schema"
    "document (args (params (example_options d))) = d" for d
    by (simp_all add: example_options_def)
  have a: "up_to_first is_introspection_field (visited_fields example_schema doc_mixed)
        = [(\<lparr>getType = Some (NonNullType (NamedType ''__Schema'')), getParentType = Some ''Query''\<rparr>,
            ''__schema'')]"
    by code_simp
  have "\<exists>e \<in> set (visited_fields example_schema doc_mixed). is_introspection_field e"
    by code_simp
  then have b: "\<exists>e \<in> set (visited_fields example_schema doc_mixed).
      \<exists>t. getType (fst e) = Some t \<and> isIntrospectionType (getNamedType t)"
    by (simp add: is_introspection_field_iff)
  have c: "length (visited_fields example_schema doc_mixed) = 5" by code_simp
  have "\<not> (\<exists>e \<in> set (visited_fields example_schema doc_find_posts). is_introspection_field e)"
    by code_simp
  then have d: "\<not> (\<exists>e \<in> set (visited_fields example_schema doc_find_posts).
      \<exists>t. getType (fst e) = Some t \<and> isIntrospectionType (getNamedType t))"
    by (simp add: is_introspection_field_iff)
  have e: "up_to_first is_introspection_field (visited_fields example_schema doc_find_posts)
        = visited_fields example_schema doc_find_posts"
    by code_simp
  from isIntrospectionQuery_first_match [of "params (example_options doc_mixed)"]
       isIntrospectionQuery_first_match [of "params (example_options doc_find_posts)"]
       a b c d e
  show ?thesis by (simp add: s)
qed

section \<open>The schema coordinate walk\<close>

text \<open>
  Claim C7. \<open>denySchemaCoordinate\<close> returns true if and only if some visited field has a
  parent type such that the string \<open>parentTypeName.fieldName\<close> is in the configured list
  of denied schema coordinates; the output type of the field plays no role. With no
  denylist, or a denylist without schema coordinates, it returns false for every document.
\<close>

theorem denySchemaCoordinate_iff:
  "denySchemaCoordinate opts =
     (\<exists>e \<in> set (visited_fields (schema (args (params opts))) (document (args (params opts)))).
        \<exists>parentType. getParentType (fst e) = Some parentType
          \<and> schemaCoordinate parentType (snd e) \<in> set (schemaCoordinateDenyList opts))
   \<and> denySchemaCoordinate (opts\<lparr>denylist := None\<rparr>) = False
   \<and> denySchemaCoordinate (opts\<lparr>denylist := Some \<lparr>types = ts, schemaCoordinates = None\<rparr>\<rparr>) = False"
proof -
  have flag: "denySchemaCoordinate o' =
      (\<exists>e \<in> set (visited_fields (schema (args (params o'))) (document (args (params o')))).
         is_denied_coordinate (schemaCoordinateDenyList o') e)" for o'
    using run_search_flag [OF searches_denySchemaCoordinate, of _ _ False]
    by (simp add: denySchemaCoordinate_def visit_run)
  show ?thesis
    by (simp add: flag is_denied_coordinate_iff schemaCoordinateDenyList_def)
qed

text \<open>
  With \<open>Post.id\<close> denied, \<open>query FindPosts { posts { id } }\<close> is denied. Listing \<open>ID\<close>, the
  output type of that field, or strings built from it or from the field \<open>posts\<close>, denies
  nothing.
\<close>

theorem denySchemaCoordinate_iff_witness:
  "denySchemaCoordinate options_coordinate_denied
   \<and> \<not> denySchemaCoordinate options_id_type_listed_as_coordinate
   \<and> \<not> denySchemaCoordinate (example_options doc_find_posts)"
proof -
  have s: "schema (args (params options_coordinate_denied)) = example_schema"
    "document (args (params options_coordinate_denied)) = doc_find_posts"
    "schema (args (params options_id_type_listed_as_coordinate)) = example_schema"
    "document (args (params options_id_type_listed_as_coordinate)) = doc_find_posts"
    by (simp_all add: options_coordinate_denied_def options_id_type_listed_as_coordinate_def
          example_options_def)
  have "\<exists>e \<in> set (visited_fields example_schema doc_find_posts).
          is_denied_coordinate (schemaCoordinateDenyList options_coordinate_denied) e"
    by code_simp
  then have a: "\<exists>e \<in> set (visited_fields example_schema doc_find_posts).
        \<exists>parentType. getParentType (fst e) = Some parentType
          \<and> schemaCoordinate parentType (snd e) \<in> set (schemaCoordinateDenyList options_coordinate_denied)"
    by (simp add: is_denied_coordinate_iff)
  have "\<not> (\<exists>e \<in> set (visited_fields example_schema doc_find_posts).
          is_denied_coordinate (schemaCoordinateDenyList options_id_type_listed_as_coordinate) e)"
    by code_simp
  then have b: "\<not> (\<exists>e \<in> set (visited_fields example_schema doc_find_posts).
        \<exists>parentType. getParentType (fst e) = Some parentType
          \<and> schemaCoordinate parentType (snd e)
                \<in> set (schemaCoordinateDenyList options_id_type_listed_as_coordinate))"
    by (simp add: is_denied_coordinate_iff)
  have c: "(example_options doc_find_posts)\<lparr>denylist := None\<rparr> = example_options doc_find_posts"
    by (simp add: example_options_def)
  from denySchemaCoordinate_iff [of "example_options doc_find_posts", THEN conjunct2, THEN conjunct1] c
  have d: "\<not> denySchemaCoordinate (example_options doc_find_posts)" by simp
  from denySchemaCoordinate_iff [of options_coordinate_denied]
       denySchemaCoordinate_iff [of options_id_type_listed_as_coordinate]
       a b d
  show ?thesis by (simp add: s)
qed

section \<open>The emission policy: deny rules come first\<close>

text \<open>
  Claim C1, as amended. For every input whose document touches a type of the configured
  denylist and whose operation name resolves (the document has an operation definition,
  or the request carries a non-empty operation name), \<open>shouldSendEvent\<close> returns false,
  whatever the allow overrides for introspection, anonymous operations and errors say.
  When the name does not resolve, \<open>shouldSendEvent\<close> raises the \<open>TypeError\<close> of
  \<open>getOperationName\<close> before the cascade runs; it never returns true for such a document.
\<close>

theorem deny_type_precedes_allow:
  assumes "\<exists>e \<in> set (visited_fields (schema (args (params opts))) (document (args (params opts)))).
             \<exists>t. getType (fst e) = Some t \<and> getNamedType t \<in> set (typeDenyList opts)"
  shows "fst (shouldSendEvent opts) = (if resolvable (params opts) then Inr False else Inl TypeError)"
proof (cases "resolvable (params opts)")
  case True
  from assms have denied: "denyType opts" by (simp add: denyType_iff)
  obtain b lg where a: "allowOperation opts = (Inr b, lg)"
    using allowOperation_total by blast
  from True have "isAnonymousOperation (params opts) = Inr (operationNameOf (params opts) = None)"
    by (simp add: isAnonymousOperation_cases)
  from shouldSendEvent_value [OF _ this, of b] a denied True show ?thesis
    by simp
next
  case False
  then show ?thesis by (simp add: shouldSendEvent_failure)
qed

text \<open>
  The document \<open>query Mixed { __schema { types { name } } post { id } }\<close> with \<open>Post\<close> on the
  denylist, all three allow overrides switched on and an error in the result: not sent.
\<close>

theorem deny_type_precedes_allow_witness:
  "denyType options_denied_introspection
   \<and> isIntrospectionQuery (params options_denied_introspection)
   \<and> sendIntrospection options_denied_introspection
   \<and> hasErrors options_denied_introspection
   \<and> sendErrors options_denied_introspection
   \<and> fst (shouldSendEvent options_denied_introspection) = Inr False"
proof -
  have d: "denyType options_denied_introspection" by code_simp
  then have t: "\<exists>e \<in> set (visited_fields (schema (args (params options_denied_introspection)))
                           (document (args (params options_denied_introspection)))).
             \<exists>t. getType (fst e) = Some t
                \<and> getNamedType t \<in> set (typeDenyList options_denied_introspection)"
    by (simp add: denyType_iff)
  have r: "resolvable (params options_denied_introspection)" by code_simp
  have i: "isIntrospectionQuery (params options_denied_introspection)" by code_simp
  have e: "hasErrors options_denied_introspection" by code_simp
  have f: "sendIntrospection options_denied_introspection \<and> sendErrors options_denied_introspection"
    by code_simp
  from deny_type_precedes_allow [OF t] r d i e f show ?thesis by simp
qed

text \<open>
  The claim as stated fails on a document without an operation definition:
  \<open>fragment PostId on Post { id }\<close> touches the denied type \<open>ID\<close>, and
  \<open>shouldSendEvent\<close> does not return false, it raises.
\<close>

theorem deny_type_returns_false_counterexample:
  "denyType options_fragment_denied
   \<and> fst (shouldSendEvent options_fragment_denied) = Inl TypeError"
  by code_simp

section \<open>The emission policy: the default rule\<close>

text \<open>
  Claim C3. When the operation kind is allowed, no denied type and no denied schema
  coordinate is touched, and none of the three allow overrides applies (anonymous
  operation with \<open>sendAnonymousOperations\<close>, introspection with \<open>sendIntrospection\<close>,
  errors with \<open>sendErrors\<close>), \<open>shouldSendEvent\<close> returns true if and only if the
  operation is not an introspection query and the result carries no errors. In particular
  an operation whose result carries errors is then not sent.
\<close>

theorem default_rule:
  assumes "fst (allowOperation opts) = Inr True"
    and "\<not> denyType opts"
    and "\<not> denySchemaCoordinate opts"
    and "\<not> (isAnonymousOperation (params opts) = Inr True \<and> sendAnonymousOperations opts)"
    and "\<not> (isIntrospectionQuery (params opts) \<and> sendIntrospection opts)"
    and "\<not> (hasErrors opts \<and> sendErrors opts)"
  shows "fst (shouldSendEvent opts)
           = Inr (\<not> isIntrospectionQuery (params opts) \<and> \<not> hasErrors opts)
         \<and> (hasErrors opts \<longrightarrow> fst (shouldSendEvent opts) = Inr False)"
proof -
  from allowed_resolvable [OF assms(1)]
  have an: "isAnonymousOperation (params opts) = Inr (operationNameOf (params opts) = None)"
    by (simp add: isAnonymousOperation_cases)
  from shouldSendEvent_value [OF assms(1) an] assms(2-6) an show ?thesis
    by auto
qed

text \<open>
  \<open>query FindPosts { posts { id } }\<close> with an error in the result and \<open>sendErrors\<close> off is
  not sent; the same operation without errors is sent.
\<close>

theorem default_rule_witness:
  "hasErrors options_with_errors \<and> \<not> sendErrors options_with_errors
   \<and> fst (shouldSendEvent options_with_errors) = Inr False
   \<and> fst (shouldSendEvent (example_options doc_find_posts)) = Inr True"
proof -
  have a: "fst (allowOperation options_with_errors) = Inr True" by code_simp
  have b: "\<not> denyType options_with_errors" by code_simp
  have c: "\<not> denySchemaCoordinate options_with_errors" by code_simp
  have d: "\<not> (isAnonymousOperation (params options_with_errors) = Inr True
              \<and> sendAnonymousOperations options_with_errors)" by code_simp
  have e: "\<not> (isIntrospectionQuery (params options_with_errors) \<and> sendIntrospection options_with_errors)"
    by code_simp
  have f: "\<not> (hasErrors options_with_errors \<and> sendErrors options_with_errors)" by code_simp
  have h: "hasErrors options_with_errors \<and> \<not> sendErrors options_with_errors" by code_simp
  have a': "fst (allowOperation (example_options doc_find_posts)) = Inr True" by code_simp
  have b': "\<not> denyType (example_options doc_find_posts)" by code_simp
  have c': "\<not> denySchemaCoordinate (example_options doc_find_posts)" by code_simp
  have d': "\<not> (isAnonymousOperation (params (example_options doc_find_posts)) = Inr True
              \<and> sendAnonymousOperations (example_options doc_find_posts))" by code_simp
  have e': "\<not> (isIntrospectionQuery (params (example_options doc_find_posts))
              \<and> sendIntrospection (example_options doc_find_posts))"
    by code_simp
  have f': "\<not> (hasErrors (example_options doc_find_posts) \<and> sendErrors (example_options doc_find_posts))"
    by code_simp
  have g': "\<not> isIntrospectionQuery (params (example_options doc_find_posts))
            \<and> \<not> hasErrors (example_options doc_find_posts)" by code_simp
  from default_rule [OF a b c d e f] default_rule [OF a' b' c' d' e' f'] h g'
  show ?thesis by simp
qed

section \<open>The emission policy: anonymity alone never denies\<close>

text \<open>
  Claim C10. An anonymous operation whose kind is allowed, that touches no denied type and
  no denied schema coordinate, that is not an introspection query and whose result carries
  no errors is sent, whatever the value of \<open>sendAnonymousOperations\<close>: the flag is an allow
  override and never a reason to deny.
\<close>

theorem anonymity_never_denies:
  assumes "isAnonymousOperation (params opts) = Inr True"
    and "fst (allowOperation opts) = Inr True"
    and "\<not> denyType opts"
    and "\<not> denySchemaCoordinate opts"
    and "\<not> isIntrospectionQuery (params opts)"
    and "\<not> hasErrors opts"
  shows "fst (shouldSendEvent (opts\<lparr>sendAnonymousOperations := flag\<rparr>)) = Inr True"
proof -
  let ?o = "opts\<lparr>sendAnonymousOperations := flag\<rparr>"
  have a: "fst (allowOperation ?o) = Inr True"
    using assms(2) by (simp add: signals_ignore_anonymous_flag)
  have b: "isAnonymousOperation (params ?o) = Inr True"
    using assms(1) by simp
  from shouldSendEvent_value [OF a b] assms(3-6) show ?thesis
    by (simp add: signals_ignore_anonymous_flag)
qed

text \<open>The anonymous \<open>query { test }\<close> with \<open>sendAnonymousOperations\<close> off is sent.\<close>

theorem anonymity_never_denies_witness:
  "isAnonymousOperation (params (example_options doc_test)) = Inr True
   \<and> \<not> sendAnonymousOperations (example_options doc_test)
   \<and> fst (shouldSendEvent (example_options doc_test)) = Inr True"
proof -
  have a: "isAnonymousOperation (params (example_options doc_test)) = Inr True" by code_simp
  have b: "fst (allowOperation (example_options doc_test)) = Inr True" by code_simp
  have c: "\<not> denyType (example_options doc_test)" by code_simp
  have d: "\<not> denySchemaCoordinate (example_options doc_test)" by code_simp
  have e: "\<not> isIntrospectionQuery (params (example_options doc_test))" by code_simp
  have f: "\<not> hasErrors (example_options doc_test)" by code_simp
  have g: "(example_options doc_test)\<lparr>sendAnonymousOperations := False\<rparr> = example_options doc_test"
    by (simp add: example_options_def)
  have h: "\<not> sendAnonymousOperations (example_options doc_test)" by code_simp
  from anonymity_never_denies [OF a b c d e f, of False] a g h show ?thesis by simp
qed

section \<open>Unknown operations and the allow-list\<close>

text \<open>
  Claim C4, as amended. When \<open>getOperationAST\<close> finds no operation for the given operation
  name, the operation kind is reported as \<open>unknown\<close> and \<open>sendOperation\<close> returns false,
  whatever the configuration, and raises nothing. The execution is then denied,
  \<open>shouldSendEvent\<close> returning false, when the operation name resolves (the document has
  an operation definition, or the request carries a non-empty operation name); when it
  does not resolve, \<open>shouldSendEvent\<close> raises a \<open>TypeError\<close>.
\<close>

theorem unknown_operation_denied:
  assumes "getOperationAST (document (args (params opts))) (operationName (args (params opts))) = None"
  shows "getOperation (params opts) = unknown
         \<and> fst (sendOperation opts) = Inr False
         \<and> fst (shouldSendEvent opts)
             = (if resolvable (params opts) then Inr False else Inl TypeError)"
proof -
  from assms have u: "getOperation (params opts) = unknown"
    by (simp add: getOperation_def)
  then have "fst (sendOperation opts) = Inr False"
    by (simp add: sendOperation_value)
  with u unknown_denied_or_raises [OF u] show ?thesis by simp
qed

text \<open>
  A document with two anonymous operations and no operation name, all three operation
  kinds allowed: denied.
\<close>

theorem unknown_operation_denied_witness:
  "getOperationAST doc_two_anonymous None = None
   \<and> sendOperations (example_options doc_two_anonymous) = Some [query, mutation, subscription]
   \<and> resolvable (params (example_options doc_two_anonymous))
   \<and> getOperation (params (example_options doc_two_anonymous)) = unknown
   \<and> sendOperation (example_options doc_two_anonymous) = (Inr False, [''Unknown operation''])
   \<and> fst (shouldSendEvent (example_options doc_two_anonymous)) = Inr False"
proof -
  have h: "getOperationAST (document (args (params (example_options doc_two_anonymous))))
             (operationName (args (params (example_options doc_two_anonymous)))) = None"
    by code_simp
  have a: "getOperationAST doc_two_anonymous None = None" by code_simp
  have b: "sendOperations (example_options doc_two_anonymous) = Some [query, mutation, subscription]"
    by (simp add: example_options_def)
  have c: "sendOperation (example_options doc_two_anonymous) = (Inr False, [''Unknown operation''])"
    by code_simp
  have r: "resolvable (params (example_options doc_two_anonymous))" by code_simp
  from unknown_operation_denied [OF h] a b c r show ?thesis by simp
qed

text \<open>
  The claim as stated fails on \<open>fragment PostId on Post { id }\<close> with no operation name:
  no operation resolves and \<open>sendOperation\<close> returns false, but the execution is not
  denied, \<open>shouldSendEvent\<close> fails.
\<close>

theorem unknown_operation_fails_counterexample:
  "getOperationAST doc_fragment_only None = None
   \<and> getOperation (params (example_options doc_fragment_only)) = unknown
   \<and> fst (sendOperation (example_options doc_fragment_only)) = Inr False
   \<and> fst (shouldSendEvent (example_options doc_fragment_only)) = Inl TypeError"
  by code_simp

text \<open>
  Claim C5, evaluated at an input with no allow-list: \<open>query { test }\<close> with
  \<open>sendOperations\<close> absent. \<open>sendOperation\<close> returns false and raises nothing, but the only
  warning it writes is that the operation is not allowed: the guard
  \<open>!options.sendOperations === undefined\<close> is false, so \<open>No operations are allowed.\<close> is
  not written (by \<open>no_operations_warning_never_logged\<close>, for no input at all).
\<close>

theorem sendOperation_absent_allow_list:
  "sendOperation ((example_options doc_test)\<lparr>sendOperations := None\<rparr>)
     = (Inr False, [''Operation query named undefined is not allowed''])"
  by code_simp

section \<open>The name of the operation\<close>

text \<open>
  Claim C8, as amended. When the request carries a non-empty operation name or the
  document has an operation definition, \<open>getOperationName\<close> returns the operation name of
  the request if it is non-empty, otherwise the name that the first operation definition
  of the document declares, otherwise \<open>undefined\<close>, and \<open>isAnonymousOperation\<close> returns
  true exactly when that is \<open>undefined\<close>. With no operation name and no operation
  definition both raise a \<open>TypeError\<close>.
\<close>

theorem getOperationName_resolution:
  "getOperationName p = (if resolvable p then Inr (operationNameOf p) else Inl TypeError)
   \<and> isAnonymousOperation p = (if resolvable p then Inr (operationNameOf p = None) else Inl TypeError)"
  by (simp add: getOperationName_cases isAnonymousOperation_cases)

text \<open>
  An explicit name wins over the declared one; \<open>query FindPosts { posts { id } }\<close> is named
  \<open>FindPosts\<close>; \<open>query { test }\<close> is anonymous.
\<close>

theorem getOperationName_resolution_witness:
  "getOperationName params_named = Inr (Some ''Explicit'')
   \<and> getOperationName (params (example_options doc_find_posts)) = Inr (Some ''FindPosts'')
   \<and> isAnonymousOperation (params (example_options doc_find_posts)) = Inr False
   \<and> getOperationName (params (example_options doc_test)) = Inr None
   \<and> isAnonymousOperation (params (example_options doc_test)) = Inr True"
proof -
  have r: "resolvable params_named" "resolvable (params (example_options doc_find_posts))"
    "resolvable (params (example_options doc_test))"
    by code_simp+
  have n: "operationNameOf params_named = Some ''Explicit''"
    "operationNameOf (params (example_options doc_find_posts)) = Some ''FindPosts''"
    "operationNameOf (params (example_options doc_test)) = None"
    by code_simp+
  from getOperationName_resolution [of params_named]
       getOperationName_resolution [of "params (example_options doc_find_posts)"]
       getOperationName_resolution [of "params (example_options doc_test)"] r n
  show ?thesis by simp
qed

text \<open>
  The claim as stated fails on \<open>fragment PostId on Post { id }\<close> with no operation name:
  nothing is given and nothing is declared, yet the result is not \<open>undefined\<close>.
\<close>

theorem getOperationName_undefined_counterexample:
  "operationNameOf (params (example_options doc_fragment_only)) = None
   \<and> getOperationName (params (example_options doc_fragment_only)) = Inl TypeError
   \<and> isAnonymousOperation (params (example_options doc_fragment_only)) = Inl TypeError"
  by code_simp

section \<open>Which operations return\<close>

text \<open>
  Claim C9, as amended. \<open>sendOperation\<close> returns a value for every input.
  \<open>getOperationName\<close>, \<open>isAnonymousOperation\<close> and \<open>shouldSendEvent\<close> return a value
  exactly when the operation name resolves (the document has an operation definition, or
  the request carries a non-empty operation name), also with a missing result or absent
  configuration fields; when it does not resolve they raise a \<open>TypeError\<close>, and so does
  \<open>buildTypeIdentifiers\<close>. \<open>buildTypeIdentifiers\<close> returns a value exactly when the
  operation name resolves, the result is present, \<open>getOperationAST\<close> finds the operation
  of the request and, if the result has data, the walk of the data returns.
\<close>

theorem operations_return_when_name_resolves:
  "returns (fst (sendOperation opts))
   \<and> returns (getOperationName (params opts)) = resolvable (params opts)
   \<and> returns (isAnonymousOperation (params opts)) = resolvable (params opts)
   \<and> returns (fst (shouldSendEvent opts)) = resolvable (params opts)
   \<and> (\<not> resolvable (params opts) \<longrightarrow>
         getOperationName (params opts) = Inl TypeError
         \<and> isAnonymousOperation (params opts) = Inl TypeError
         \<and> fst (shouldSendEvent opts) = Inl TypeError
         \<and> buildTypeIdentifiers visitRoot opts = Inl TypeError)
   \<and> returns (buildTypeIdentifiers visitRoot opts) =
        (resolvable (params opts)
         \<and> (\<exists>r operation.
               result opts = Some r
               \<and> getOperationAST (document (args (params opts))) (operationNameOf (params opts))
                   = Some operation
               \<and> (has_data r \<longrightarrow>
                    returns (visitRoot (data r) operation (request_of opts)
                               (schema (args (params opts)))))))"
proof -
  have s: "returns (fst (sendOperation opts))"
    by (simp add: sendOperation_value)
  have n: "returns (getOperationName (params opts)) = resolvable (params opts)"
    "returns (isAnonymousOperation (params opts)) = resolvable (params opts)"
    by (simp_all add: getOperationName_cases isAnonymousOperation_cases)
  have f: "\<not> resolvable (params opts) \<longrightarrow>
         getOperationName (params opts) = Inl TypeError
         \<and> isAnonymousOperation (params opts) = Inl TypeError
         \<and> fst (shouldSendEvent opts) = Inl TypeError
         \<and> buildTypeIdentifiers visitRoot opts = Inl TypeError"
    by (simp add: getOperationName_cases isAnonymousOperation_cases shouldSendEvent_failure
          buildTypeIdentifiers_cases)
  have b: "returns (buildTypeIdentifiers visitRoot opts) =
        (resolvable (params opts)
         \<and> (\<exists>r operation.
               result opts = Some r
               \<and> getOperationAST (document (args (params opts))) (operationNameOf (params opts))
                   = Some operation
               \<and> (has_data r \<longrightarrow>
                    returns (visitRoot (data r) operation (request_of opts)
                               (schema (args (params opts)))))))"
    by (simp add: returns_buildTypeIdentifiers returns_visitResult request_of_def)
  from s n f b shouldSendEvent_returns [of opts] show ?thesis
    by blast
qed

text \<open>
  \<open>query { test }\<close> with its result, no allow-list and no denylist: the five operations
  return, and no event is sent. On \<open>fragment PostId on Post { id }\<close> the name does not
  resolve.
\<close>

theorem operations_return_when_name_resolves_witness:
  "resolvable (params options_absent_config)
   \<and> sendOperations options_absent_config = None
   \<and> denylist options_absent_config = None
   \<and> fst (sendOperation options_absent_config) = Inr False
   \<and> getOperationName (params options_absent_config) = Inr None
   \<and> isAnonymousOperation (params options_absent_config) = Inr True
   \<and> fst (shouldSendEvent options_absent_config) = Inr False
   \<and> buildTypeIdentifiers (walk_yielding test_events) options_absent_config = Inr ([], [])
   \<and> returns (fst (sendOperation options_absent_config))
   \<and> returns (getOperationName (params options_absent_config))
   \<and> returns (isAnonymousOperation (params options_absent_config))
   \<and> returns (fst (shouldSendEvent options_absent_config))
   \<and> returns (buildTypeIdentifiers (walk_yielding test_events) options_absent_config)
   \<and> \<not> resolvable (params (example_options doc_fragment_only))
   \<and> \<not> returns (fst (shouldSendEvent (example_options doc_fragment_only)))
   \<and> buildTypeIdentifiers (walk_yielding test_events) (example_options doc_fragment_only)
        = Inl TypeError"
proof -
  let ?o = options_absent_config
  have r: "resolvable (params ?o)" by code_simp
  have a: "sendOperations ?o = None" "denylist ?o = None"
    by (simp_all add: options_absent_config_def)
  have e: "fst (sendOperation ?o) = Inr False"
    "getOperationName (params ?o) = Inr None"
    "isAnonymousOperation (params ?o) = Inr True"
    "fst (shouldSendEvent ?o) = Inr False"
    "buildTypeIdentifiers (walk_yielding test_events) ?o = Inr ([], [])"
    by code_simp+
  have d: "result ?o = Some \<lparr>data = JSObject [(''test'', JSString ''hello'')], errors = Some []\<rparr>"
    by (simp add: options_absent_config_def)
  have g: "getOperationAST (document (args (params ?o))) (operationNameOf (params ?o))
             = Some (OperationDefinition query None [Field ''test'' []])"
    by code_simp
  have w: "returns (walk_yielding test_events d operation req sch)" for d operation req sch
    by (simp add: walk_yielding_def)
  from operations_return_when_name_resolves [of ?o "walk_yielding test_events"] r d g w
  have "returns (fst (sendOperation ?o))
    \<and> returns (getOperationName (params ?o))
    \<and> returns (isAnonymousOperation (params ?o))
    \<and> returns (fst (shouldSendEvent ?o))
    \<and> returns (buildTypeIdentifiers (walk_yielding test_events) ?o)"
    by simp
  moreover have n: "\<not> resolvable (params (example_options doc_fragment_only))" by code_simp
  from operations_return_when_name_resolves
         [of "example_options doc_fragment_only" "walk_yielding test_events"] n
  have "\<not> returns (fst (shouldSendEvent (example_options doc_fragment_only)))
    \<and> buildTypeIdentifiers (walk_yielding test_events) (example_options doc_fragment_only)
        = Inl TypeError"
    by simp
  ultimately show ?thesis using r a e n by simp
qed

text \<open>
  The claim as stated fails on three inputs. On \<open>fragment PostId on Post { id }\<close> with no
  operation name, four of the five operations raise. On \<open>query { test }\<close> with a missing
  result, \<open>shouldSendEvent\<close> returns and \<open>buildTypeIdentifiers\<close> raises. On a document with
  two anonymous operations, whose name resolves, \<open>buildTypeIdentifiers\<close> raises as well.
\<close>

theorem operations_return_counterexample:
  "getOperationName (params (example_options doc_fragment_only)) = Inl TypeError
   \<and> isAnonymousOperation (params (example_options doc_fragment_only)) = Inl TypeError
   \<and> fst (shouldSendEvent (example_options doc_fragment_only)) = Inl TypeError
   \<and> buildTypeIdentifiers (walk_yielding []) (example_options doc_fragment_only) = Inl TypeError
   \<and> result options_missing_result = None
   \<and> fst (shouldSendEvent options_missing_result) = Inr False
   \<and> buildTypeIdentifiers (walk_yielding test_events) options_missing_result = Inl TypeError
   \<and> resolvable (params (example_options doc_two_anonymous))
   \<and> buildTypeIdentifiers (walk_yielding []) (example_options doc_two_anonymous)
        = Inl CannotInferOperation"
  by code_simp

section \<open>Entity identifiers\<close>

text \<open>
  Claim C2, as amended. For every execution result on which \<open>buildTypeIdentifiers\<close>
  returns, that is, when the operation name resolves and \<open>visitResult\<close> returns (the
  result is present, its operation is found and the walk of its data returns),
  \<open>buildTypeIdentifiers\<close> returns exactly one identifier per distinct key
  \<open>`${typename}:${id}`\<close> among the pairs observed in the result, each identifier being one
  of the observed pairs, however often a pair recurs. So it returns exactly one identifier
  per distinct observed pair whenever distinct observed pairs have distinct keys, which is
  the case when all ids are strings (\<open>string_ids_distinct_keys\<close>). The returned types hold
  exactly one entry per distinct type name of the observed pairs.
\<close>

theorem buildTypeIdentifiers_one_per_key:
  assumes "resolvable (params opts)"
    and "visitResult visitRoot (result opts) (request_of opts) (schema (args (params opts))) = Inr evs"
  shows "\<exists>tys ids. buildTypeIdentifiers visitRoot opts = Inr (tys, ids)
           \<and> distinct (map entity_key ids)
           \<and> entity_key ` set ids = entity_key ` set (observed evs)
           \<and> set ids \<subseteq> set (observed evs)
           \<and> (inj_on entity_key (set (observed evs)) \<longrightarrow> distinct ids \<and> set ids = set (observed evs))
           \<and> distinct tys
           \<and> set tys = typename ` set (observed evs)"
proof -
  let ?ids = "map snd (identifierSet (collect evs))"
  let ?tys = "typeSet (collect evs)"
  from assms have b: "buildTypeIdentifiers visitRoot opts = Inr (?tys, ?ids)"
    by (simp add: buildTypeIdentifiers_cases)
  note c = collect_identifiers [of evs]
  from exactly_one_per_pair [OF c]
  have "inj_on entity_key (set (observed evs)) \<longrightarrow> distinct ?ids \<and> set ?ids = set (observed evs)"
    by blast
  with b c collect_types [of evs] show ?thesis
    by blast
qed

text \<open>
  The post 5 occurs twice in \<open>posts_result\<close>; the identifiers are the posts 5, 7 and
  11, once each, and the types are \<open>Post\<close>, once.
\<close>

theorem buildTypeIdentifiers_one_per_key_witness:
  "resolvable (params options_find_posts)
   \<and> visitResult (walk_yielding example_events) (result options_find_posts)
        (request_of options_find_posts) (schema (args (params options_find_posts)))
        = Inr example_events
   \<and> inj_on entity_key (set (observed example_events))
   \<and> buildTypeIdentifiers (walk_yielding example_events) options_find_posts
        = Inr ([''Post''],
               [\<lparr>typename = ''Post'', entity_id = JSNumber ''5''\<rparr>,
                \<lparr>typename = ''Post'', entity_id = JSNumber ''7''\<rparr>,
                \<lparr>typename = ''Post'', entity_id = JSNumber ''11''\<rparr>])
   \<and> set [\<lparr>typename = ''Post'', entity_id = JSNumber ''5''\<rparr>,
           \<lparr>typename = ''Post'', entity_id = JSNumber ''7''\<rparr>,
           \<lparr>typename = ''Post'', entity_id = JSNumber ''11''\<rparr>] = set (observed example_events)"
proof -
  let ?o = "options_find_posts"
  let ?ids = "[\<lparr>typename = ''Post'', entity_id = JSNumber ''5''\<rparr>,
               \<lparr>typename = ''Post'', entity_id = JSNumber ''7''\<rparr>,
               \<lparr>typename = ''Post'', entity_id = JSNumber ''11''\<rparr>]"
  have r: "resolvable (params ?o)" by code_simp
  have v: "visitResult (walk_yielding example_events) (result ?o) (request_of ?o)
             (schema (args (params ?o))) = Inr example_events"
    by code_simp
  have "distinct (map entity_key (remdups (observed example_events)))" by code_simp
  then have i: "inj_on entity_key (set (observed example_events))" by (rule inj_on_remdups)
  have b: "buildTypeIdentifiers (walk_yielding example_events) ?o = Inr ([''Post''], ?ids)"
    by code_simp
  from buildTypeIdentifiers_one_per_key
         [where opts = "?o" and visitRoot = "walk_yielding example_events" and evs = example_events,
          OF r v] b i
  have "set ?ids = set (observed example_events)" by auto
  with r v i b show ?thesis by simp
qed

text \<open>
  The claim as stated fails when two distinct pairs share a key: the ids \<open>5\<close> and \<open>'5'\<close>
  of two posts are both stored under \<open>Post:5\<close>, and one identifier is returned for the
  two pairs. It also fails on a missing result, for which no identifier is produced:
  \<open>buildTypeIdentifiers\<close> raises.
\<close>

theorem buildTypeIdentifiers_pair_counterexample:
  "visitResult (walk_yielding collision_events) (result options_collision)
        (request_of options_collision) (schema (args (params options_collision)))
        = Inr collision_events
   \<and> \<lparr>typename = ''Post'', entity_id = JSNumber ''5''\<rparr> \<in> set (observed collision_events)
   \<and> \<lparr>typename = ''Post'', entity_id = JSString ''5''\<rparr> \<in> set (observed collision_events)
   \<and> buildTypeIdentifiers (walk_yielding collision_events) options_collision
        = Inr ([''Post''], [\<lparr>typename = ''Post'', entity_id = JSString ''5''\<rparr>])
   \<and> buildTypeIdentifiers (walk_yielding test_events) options_missing_result = Inl TypeError"
  by code_simp

end
